theory Spec2Isabelle
  imports Complex_Main
begin

section \<open>Strings and paths\<close>

text \<open>
  JavaScript strings are modelled as \<^typ>\<open>string\<close>.  The codec tags, column names and
  clock strings the program handles are ASCII, so \<open>toLowerCase\<close> is modelled on the
  letters \<open>A\<close> to \<open>Z\<close>.  A file-system path is the list of its components:
  \<open>path.join(dir, file)\<close> appends a component, \<open>path.dirname\<close> drops the
  last one and \<open>path.basename\<close> returns it.
\<close>

type_synonym path = "string list"

definition lower_char :: "char \<Rightarrow> char" where
  "lower_char c =
     (case map_of (zip ''ABCDEFGHIJKLMNOPQRSTUVWXYZ'' ''abcdefghijklmnopqrstuvwxyz'') c of
        None \<Rightarrow> c
      | Some l \<Rightarrow> l)"

definition toLowerCase :: "string \<Rightarrow> string" where
  "toLowerCase s = map lower_char s"

text \<open>\<open>String.prototype.split\<close> on a one-character separator.\<close>

fun split_on :: "char \<Rightarrow> string \<Rightarrow> string list" where
  "split_on c [] = [[]]"
| "split_on c (x # xs) =
     (if x = c then [] # split_on c xs
      else (case split_on c xs of [] \<Rightarrow> [[x]] | w # ws \<Rightarrow> (x # w) # ws))"

definition is_space :: "char \<Rightarrow> bool" where
  "is_space c = (c = CHR '' '' \<or> c = CHR 0x0A \<or> c = CHR 0x0D \<or> c = CHR 0x09)"

definition blank :: "string \<Rightarrow> bool" where
  "blank s = list_all is_space s"

text \<open>\<open>Array.prototype.join\<close>.\<close>

fun join_with :: "string \<Rightarrow> string list \<Rightarrow> string" where
  "join_with sep [] = []"
| "join_with sep [x] = x"
| "join_with sep (x # y # ys) = x @ sep @ join_with sep (y # ys)"

section \<open>The job store (\<open>database.js\<close>)\<close>

datatype job_status = Queued | Processing | ReplacingFile | Completed | Failed

datatype error =
    SqliteError string
  | MediaNotFound nat
  | JobNotFound nat
  | JobNotFailed nat
  | TypeError
  | FsError
  | ProbeError
  | EncodedFileEmpty
  | SpawnError

record media =
  m_id :: nat
  title :: string
  episode_name :: "string option"
  directory :: path
  file_path :: path
  file_size_bytes :: int
  encoding_type :: string
  media_type :: string
  last_updated :: nat
  needs_encoding :: bool
  encoded_previously :: bool
  m_created_at :: nat

record job =
  j_id :: nat
  media_id :: nat
  status :: job_status
  priority :: int
  temp_file_path :: "path option"
  original_size_bytes :: int
  new_size_bytes :: "int option"
  size_reduction_percent :: "rat option"
  started_at :: "nat option"
  completed_at :: "nat option"
  error_message :: "string option"
  retries :: int
  created_at :: nat

text \<open>
  The database: the two tables in rowid order, the \<open>AUTOINCREMENT\<close> counters that
  SQLite keeps in \<open>sqlite_sequence\<close>, and the wall clock read by
  \<open>CURRENT_TIMESTAMP\<close>.
\<close>

record database =
  media_tbl :: "media list"
  media_seq :: nat
  jobs_tbl :: "job list"
  jobs_seq :: nat
  clock :: nat

definition empty_db :: database where
  "empty_db = \<lparr>media_tbl = [], media_seq = 0, jobs_tbl = [], jobs_seq = 0, clock = 0\<rparr>"

text \<open>
  \<open>INTEGER PRIMARY KEY AUTOINCREMENT\<close>: the new rowid is one more than the largest
  rowid the table ever held.
\<close>

definition fresh_id :: "nat \<Rightarrow> nat list \<Rightarrow> nat" where
  "fresh_id seq ids = Suc (fold max ids seq)"

text \<open>The object \<open>mediaInfo\<close> that \<open>processMediaFile\<close> hands to \<open>addMedia\<close>.\<close>

record media_info =
  mi_title :: string
  mi_episode_name :: "string option"
  mi_directory :: path
  mi_file_path :: path
  mi_file_size_bytes :: int
  mi_encoding_type :: string
  mi_media_type :: string

definition accepted_codecs :: "string list" where
  "accepted_codecs = [''hevc'', ''h265'', ''av1'']"

definition needsEncoding_of :: "string \<Rightarrow> bool" where
  "needsEncoding_of codec = (toLowerCase codec \<notin> set accepted_codecs)"

text \<open>\<open>mediaInfo.episode_name || null\<close>: the empty string is falsy.\<close>

definition or_null :: "string option \<Rightarrow> string option" where
  "or_null v = (case v of None \<Rightarrow> None | Some s \<Rightarrow> if s = [] then None else Some s)"

text \<open>
  \<open>addMedia\<close> runs \<open>INSERT OR REPLACE INTO media\<close> without an \<open>id\<close>.  The
  only uniqueness constraint a new row can violate is \<open>file_path UNIQUE\<close>; the
  \<open>REPLACE\<close> resolution deletes the rows that violate it and then inserts the new
  row under a fresh rowid.  The connection runs with \<open>foreign_keys = ON\<close> and
  \<open>encoding_jobs.media_id\<close> is declared \<open>ON DELETE CASCADE\<close>, so the jobs of a
  deleted media row are deleted with it.  Columns the statement does not list take
  their defaults.  The result is \<open>info.lastInsertRowid\<close> and the new database.
\<close>

definition addMedia :: "media_info \<Rightarrow> database \<Rightarrow> nat \<times> database" where
  "addMedia mediaInfo db =
     (let needsEncoding = needsEncoding_of (mi_encoding_type mediaInfo);
          replaced = filter (\<lambda>m. file_path m = mi_file_path mediaInfo) (media_tbl db);
          kept = filter (\<lambda>m. file_path m \<noteq> mi_file_path mediaInfo) (media_tbl db);
          surviving = filter (\<lambda>j. media_id j \<notin> set (map m_id replaced)) (jobs_tbl db);
          rowid = fresh_id (media_seq db) (map m_id (media_tbl db));
          row = \<lparr>m_id = rowid,
                 title = mi_title mediaInfo,
                 episode_name = or_null (mi_episode_name mediaInfo),
                 directory = mi_directory mediaInfo,
                 file_path = mi_file_path mediaInfo,
                 file_size_bytes = mi_file_size_bytes mediaInfo,
                 encoding_type = mi_encoding_type mediaInfo,
                 media_type = mi_media_type mediaInfo,
                 last_updated = clock db,
                 needs_encoding = needsEncoding,
                 encoded_previously = False,
                 m_created_at = clock db\<rparr>
      in (rowid, db\<lparr>media_tbl := kept @ [row], media_seq := rowid, jobs_tbl := surviving\<rparr>))"

text \<open>\<open>LIMIT n\<close>: a negative bound means no bound.\<close>

definition sql_limit :: "int \<Rightarrow> 'a list \<Rightarrow> 'a list" where
  "sql_limit n rows = (if n < 0 then rows else take (nat n) rows)"

definition sql_offset :: "int \<Rightarrow> 'a list \<Rightarrow> 'a list" where
  "sql_offset n rows = (if n < 0 then rows else drop (nat n) rows)"

text \<open>
  \<open>getMediaNeedingEncoding\<close>: \<open>WHERE needs_encoding = 1 ORDER BY file_size_bytes DESC
  LIMIT ? OFFSET ?\<close>.  Rows of equal size stay in rowid order.
\<close>

definition getMediaNeedingEncoding :: "int \<Rightarrow> int \<Rightarrow> database \<Rightarrow> media list" where
  "getMediaNeedingEncoding limit offset db =
     sql_limit limit (sql_offset offset
       (sort_key (\<lambda>m. - file_size_bytes m) (filter needs_encoding (media_tbl db))))"

definition find_media :: "nat \<Rightarrow> database \<Rightarrow> media option" where
  "find_media mediaId db = find (\<lambda>m. m_id m = mediaId) (media_tbl db)"

definition createEncodingJob :: "nat \<Rightarrow> int \<Rightarrow> database \<Rightarrow> error + (nat \<times> database)" where
  "createEncodingJob mediaId prio db =
     (case find_media mediaId db of
        None \<Rightarrow> Inl (MediaNotFound mediaId)
      | Some m \<Rightarrow>
          (let rowid = fresh_id (jobs_seq db) (map j_id (jobs_tbl db));
               row = \<lparr>j_id = rowid,
                      media_id = mediaId,
                      status = Queued,
                      priority = prio,
                      temp_file_path = None,
                      original_size_bytes = file_size_bytes m,
                      new_size_bytes = None,
                      size_reduction_percent = None,
                      started_at = None,
                      completed_at = None,
                      error_message = None,
                      retries = 0,
                      created_at = clock db\<rparr>
           in Inr (rowid, db\<lparr>jobs_tbl := jobs_tbl db @ [row], jobs_seq := rowid\<rparr>)))"

subsection \<open>\<open>updateJobStatus\<close>\<close>

text \<open>Values bound to the placeholders of a statement.\<close>

datatype sqlval = SInt int | SReal "rat option" | SText string | SPath path | SNull

text \<open>
  \<open>updateJobStatus\<close> assembles its statement from a template.  The text between
  \<open>SET\<close> and \<open>WHERE\<close> is \<open>status = ?, \<close> followed by the assignments of
  \<open>data\<close> (each followed by a comma) and then by the timestamp assignment, which is
  empty unless the status is \<open>completed\<close> or \<open>processing\<close>.
\<close>

definition updates_sql :: "(string \<times> sqlval) list \<Rightarrow> string" where
  "updates_sql data = join_with '', '' (map (\<lambda>kv. fst kv @ '' = ?'') data)"

definition timestamp_sql :: "job_status \<Rightarrow> string" where
  "timestamp_sql st =
     (if st = Completed then ''completed_at = CURRENT_TIMESTAMP''
      else if st = Processing then ''started_at = CURRENT_TIMESTAMP''
      else [])"

definition set_clause :: "job_status \<Rightarrow> (string \<times> sqlval) list \<Rightarrow> string" where
  "set_clause st data =
     ''status = ?, '' @ (if updates_sql data \<noteq> [] then updates_sql data @ '', '' else [])
       @ '' '' @ timestamp_sql st"

text \<open>
  SQLite's grammar for the list after \<open>SET\<close>: assignments separated by commas.  A
  comma that no assignment follows is a syntax error, which \<open>db.prepare\<close> throws.
\<close>

definition setlist_ok :: "string \<Rightarrow> bool" where
  "setlist_ok s = list_all (\<lambda>a. \<not> blank a) (split_on CHR '','' s)"

text \<open>
  Storing a bound value in a column of \<open>encoding_jobs\<close>.  The program binds to each
  column a value of the column's type or \<open>null\<close>; the model refuses any other
  value and any other column name.
\<close>

definition set_column :: "string \<times> sqlval \<Rightarrow> job \<Rightarrow> job option" where
  "set_column kv j =
     (if fst kv = ''temp_file_path'' then
        (case snd kv of SPath p \<Rightarrow> Some (j\<lparr>temp_file_path := Some p\<rparr>)
                      | SNull \<Rightarrow> Some (j\<lparr>temp_file_path := None\<rparr>) | _ \<Rightarrow> None)
      else if fst kv = ''new_size_bytes'' then
        (case snd kv of SInt n \<Rightarrow> Some (j\<lparr>new_size_bytes := Some n\<rparr>)
                      | SNull \<Rightarrow> Some (j\<lparr>new_size_bytes := None\<rparr>) | _ \<Rightarrow> None)
      else if fst kv = ''size_reduction_percent'' then
        (case snd kv of SReal r \<Rightarrow> Some (j\<lparr>size_reduction_percent := r\<rparr>)
                      | SNull \<Rightarrow> Some (j\<lparr>size_reduction_percent := None\<rparr>) | _ \<Rightarrow> None)
      else if fst kv = ''error_message'' then
        (case snd kv of SText s \<Rightarrow> Some (j\<lparr>error_message := Some s\<rparr>)
                      | SNull \<Rightarrow> Some (j\<lparr>error_message := None\<rparr>) | _ \<Rightarrow> None)
      else if fst kv = ''retries'' then
        (case snd kv of SInt n \<Rightarrow> Some (j\<lparr>retries := n\<rparr>) | _ \<Rightarrow> None)
      else None)"

fun set_columns :: "(string \<times> sqlval) list \<Rightarrow> job \<Rightarrow> job option" where
  "set_columns [] j = Some j"
| "set_columns (kv # kvs) j =
     (case set_column kv j of None \<Rightarrow> None | Some j' \<Rightarrow> set_columns kvs j')"

definition set_timestamp :: "job_status \<Rightarrow> nat \<Rightarrow> job \<Rightarrow> job" where
  "set_timestamp st t j =
     (if st = Completed then j\<lparr>completed_at := Some t\<rparr>
      else if st = Processing then j\<lparr>started_at := Some t\<rparr>
      else j)"

text \<open>The row after the \<open>UPDATE\<close>, if the statement can be run on it.\<close>

definition updated_row :: "job_status \<Rightarrow> (string \<times> sqlval) list \<Rightarrow> nat \<Rightarrow> job \<Rightarrow> job option" where
  "updated_row st data t j =
     (case set_columns data (j\<lparr>status := st\<rparr>) of
        None \<Rightarrow> None
      | Some j' \<Rightarrow> Some (set_timestamp st t j'))"

fun update_rows :: "nat \<Rightarrow> job_status \<Rightarrow> (string \<times> sqlval) list \<Rightarrow> nat \<Rightarrow> job list \<Rightarrow> job list option" where
  "update_rows jobId st data t [] = Some []"
| "update_rows jobId st data t (j # js) =
     (case update_rows jobId st data t js of
        None \<Rightarrow> None
      | Some js' \<Rightarrow>
          (if j_id j = jobId then
             (case updated_row st data t j of None \<Rightarrow> None | Some j' \<Rightarrow> Some (j' # js'))
           else Some (j # js')))"

definition updateJobStatus ::
  "nat \<Rightarrow> job_status \<Rightarrow> (string \<times> sqlval) list \<Rightarrow> database \<Rightarrow> error + database" where
  "updateJobStatus jobId st data db =
     (if \<not> setlist_ok (set_clause st data) then
        Inl (SqliteError (''UPDATE encoding_jobs SET '' @ set_clause st data @ '' WHERE id = ?''))
      else
        (case update_rows jobId st data (clock db) (jobs_tbl db) of
           None \<Rightarrow> Inl (SqliteError ''cannot bind'')
         | Some js \<Rightarrow> Inr (db\<lparr>jobs_tbl := js\<rparr>)))"

subsection \<open>The other statements\<close>

definition markMediaAsEncoded :: "nat \<Rightarrow> string \<Rightarrow> int \<Rightarrow> database \<Rightarrow> database" where
  "markMediaAsEncoded mediaId newEncodingType newSizeBytes db =
     db\<lparr>media_tbl :=
          map (\<lambda>m. if m_id m = mediaId
                   then m\<lparr>needs_encoding := False,
                          encoded_previously := True,
                          encoding_type := newEncodingType,
                          file_size_bytes := newSizeBytes,
                          last_updated := clock db\<rparr>
                   else m)
              (media_tbl db)\<rparr>"

text \<open>
  The rows of \<open>encoding_jobs j JOIN media m ON j.media_id = m.id\<close>: a job paired with
  its media row.  The program reads \<open>title\<close>, \<open>episode_name\<close>, \<open>file_path\<close> and
  \<open>encoding_type\<close> from the second component.
\<close>

definition joined :: "database \<Rightarrow> (job \<times> media) list" where
  "joined db =
     concat (map (\<lambda>j. map (\<lambda>m. (j, m)) (filter (\<lambda>m. m_id m = media_id j) (media_tbl db)))
                 (jobs_tbl db))"

text \<open>
  \<open>getJobsByStatus\<close>: \<open>WHERE j.status = ? ORDER BY j.priority DESC, j.created_at ASC
  LIMIT ?\<close>, written as two stable sorts.
\<close>

definition getJobsByStatus :: "job_status \<Rightarrow> int \<Rightarrow> database \<Rightarrow> (job \<times> media) list" where
  "getJobsByStatus st limit db =
     sql_limit limit
       (sort_key (\<lambda>jm. - priority (fst jm))
          (sort_key (\<lambda>jm. created_at (fst jm))
             (filter (\<lambda>jm. status (fst jm) = st) (joined db))))"

definition getJobById :: "nat \<Rightarrow> database \<Rightarrow> (job \<times> media) option" where
  "getJobById jobId db = find (\<lambda>jm. j_id (fst jm) = jobId) (joined db)"

section \<open>Admission (\<open>queueEncodingJobs\<close> in \<open>scanner.js\<close>)\<close>

text \<open>
  The loop over \<open>mediaToEncode\<close>.  \<open>Math.floor(size / (1024 * 1024 * 100))\<close> is
  integer division.  A throw of \<open>createEncodingJob\<close> leaves the loop; the jobs
  created before it stay in the table.
\<close>

fun create_jobs :: "media list \<Rightarrow> database \<Rightarrow> error option \<times> database" where
  "create_jobs [] db = (None, db)"
| "create_jobs (m # ms) db =
     (case createEncodingJob (m_id m) (file_size_bytes m div (1024 * 1024 * 100)) db of
        Inl e \<Rightarrow> (Some e, db)
      | Inr r \<Rightarrow> create_jobs ms (snd r))"

definition queueEncodingJobs :: "database \<Rightarrow> (error + nat) \<times> database" where
  "queueEncodingJobs db =
     (let mediaToEncode = getMediaNeedingEncoding 100 0 db in
      case create_jobs mediaToEncode db of
        (Some e, db') \<Rightarrow> (Inl e, db')
      | (None, db') \<Rightarrow> (Inr (length mediaToEncode), db'))"

section \<open>Retry (\<open>restartJob\<close> in \<open>encoder.js\<close>)\<close>

text \<open>
  A throw is \<open>Inl\<close>; no statement before a throw writes to the database, so the
  database after a throw is the one before the call.
\<close>

definition restartJob :: "nat \<Rightarrow> database \<Rightarrow> error + database" where
  "restartJob jobId db =
     (case getJobById jobId db of
        None \<Rightarrow> Inl (JobNotFound jobId)
      | Some jm \<Rightarrow>
          if status (fst jm) \<noteq> Failed then Inl (JobNotFailed jobId)
          else updateJobStatus jobId Queued
                 [(''retries'', SInt (retries (fst jm) + 1)), (''error_message'', SNull)] db)"

section \<open>Sample data\<close>

definition sample_info :: "string \<Rightarrow> media_info" where
  "sample_info codec =
     \<lparr>mi_title = ''film'', mi_episode_name = None, mi_directory = [''lib''],
      mi_file_path = [''lib'', ''film.mkv''], mi_file_size_bytes = 1000,
      mi_encoding_type = codec, mi_media_type = ''movie''\<rparr>"

definition sample_media :: media where
  "sample_media =
     \<lparr>m_id = 1, title = ''film'', episode_name = None, directory = [''lib''],
      file_path = [''lib'', ''film.mkv''], file_size_bytes = 1000, encoding_type = ''h264'',
      media_type = ''movie'', last_updated = 0, needs_encoding = True,
      encoded_previously = False, m_created_at = 0\<rparr>"

definition sample_job :: "job_status \<Rightarrow> job" where
  "sample_job st =
     \<lparr>j_id = 1, media_id = 1, status = st, priority = 0, temp_file_path = None,
      original_size_bytes = 1000, new_size_bytes = None, size_reduction_percent = None,
      started_at = None, completed_at = None,
      error_message = (if st = Failed then Some ''boom'' else None), retries = 0,
      created_at = 0\<rparr>"

definition sample_db :: "job_status \<Rightarrow> database" where
  "sample_db st =
     \<lparr>media_tbl = [sample_media], media_seq = 1, jobs_tbl = [sample_job st], jobs_seq = 1,
      clock = 5\<rparr>"

section \<open>Vocabulary of the properties\<close>

text \<open>The live media rows stored under a file path.\<close>

definition rows_of_path :: "path \<Rightarrow> database \<Rightarrow> media list" where
  "rows_of_path p db = filter (\<lambda>m. file_path m = p) (media_tbl db)"

text \<open>
  The flag of a media row agrees with its codec tag: \<open>needs_encoding\<close> is false
  exactly when the lower-cased tag is one of the accepted codecs.
\<close>

definition flag_consistent :: "media \<Rightarrow> bool" where
  "flag_consistent m = ((\<not> needs_encoding m) = (toLowerCase (encoding_type m) \<in> set accepted_codecs))"

text \<open>The statuses of a job that is neither \<open>completed\<close> nor \<open>failed\<close>.\<close>

definition is_nonterminal :: "job_status \<Rightarrow> bool" where
  "is_nonterminal st = (st = Queued \<or> st = Processing \<or> st = ReplacingFile)"

definition nonterminal_jobs_of :: "nat \<Rightarrow> database \<Rightarrow> job list" where
  "nonterminal_jobs_of mediaId db =
     filter (\<lambda>j. media_id j = mediaId \<and> is_nonterminal (status j)) (jobs_tbl db)"

section \<open>The dispatch engine (\<open>encoder.js\<close>)\<close>

subsection \<open>File names\<close>

text \<open>
  \<open>path.extname\<close> of a file name: the text from the last dot on, or nothing when
  the name has no dot or only a leading one.  \<open>split_ext\<close> returns the name without
  the extension, which is \<open>path.basename(name, path.extname(name))\<close>, and the
  extension.
\<close>

definition split_ext :: "string \<Rightarrow> string \<times> string" where
  "split_ext name =
     (if CHR ''.'' \<notin> set name \<or> name = ''..'' then (name, [])
      else (let r = rev name;
                ext = rev (takeWhile (\<lambda>c. c \<noteq> CHR ''.'') r);
                stem = rev (drop 1 (dropWhile (\<lambda>c. c \<noteq> CHR ''.'') r))
            in if stem = [] then (name, []) else (stem, CHR ''.'' # ext)))"

definition extname :: "string \<Rightarrow> string" where
  "extname name = snd (split_ext name)"

definition basename :: "path \<Rightarrow> string" where
  "basename p = (if p = [] then [] else last p)"

definition dirname :: "path \<Rightarrow> path" where
  "dirname p = butlast p"

text \<open>The scratch file name \<open>`${basename(file_path, ext)}_hevc_temp${ext}`\<close>.\<close>

definition tempFileName :: "path \<Rightarrow> string" where
  "tempFileName p = fst (split_ext (basename p)) @ ''_hevc_temp'' @ snd (split_ext (basename p))"

subsection \<open>State\<close>

text \<open>
  An encoder process and what its handlers captured: the job row of the polling pass,
  the input and output paths and the arguments of \<open>ffmpeg\<close>.
\<close>

record proc =
  p_job :: "job \<times> media"
  p_input :: path
  p_output :: path
  p_args :: "string list"

text \<open>
  The module variables of \<open>encoder.js\<close>, the database, the calls of
  \<open>startEncodingJob\<close> suspended at \<open>await fs.ensureDir\<close>, the encoder processes
  that have been spawned and have not closed, the directory \<open>os.tmpdir()\<close>, and the
  contents of the files as the program's own file operations leave them.  What an
  encoder process writes to its scratch path is not held here: the handlers learn of it
  through \<open>fs.stat\<close> and \<open>ffprobe\<close>, whose answers are inputs of the model.
\<close>

record system =
  store :: database
  maxParallelJobs :: int
  activeJobs :: int
  isQueuePaused :: bool
  activeJobsMap :: "nat set"
  starting :: "(job \<times> media) list"
  running :: "proc list"
  tmpdir :: path
  files :: "path \<Rightarrow> string option"

definition init_system :: "database \<Rightarrow> system" where
  "init_system db =
     \<lparr>store = db, maxParallelJobs = 2, activeJobs = 0, isQueuePaused = False,
      activeJobsMap = {}, starting = [], running = [], tmpdir = [''tmp''],
      files = Map.empty\<rparr>"

text \<open>\<open>error.message\<close>.\<close>

fun message :: "error \<Rightarrow> string" where
  "message (SqliteError sql) = ''near WHERE: syntax error''"
| "message (MediaNotFound i) = ''Media not found''"
| "message (JobNotFound i) = ''Job not found''"
| "message (JobNotFailed i) = ''Job is not in failed status''"
| "message TypeError = ''Cannot read properties of undefined''"
| "message FsError = ''file system error''"
| "message ProbeError = ''ffprobe failed''"
| "message EncodedFileEmpty = ''Encoded file is empty''"
| "message SpawnError = ''spawn failed''"

subsection \<open>Control surface\<close>

definition pauseQueue :: "system \<Rightarrow> system" where
  "pauseQueue s = s\<lparr>isQueuePaused := True\<rparr>"

text \<open>\<open>Math.max(1, count)\<close>.\<close>

definition setMaxParallelJobs :: "int \<Rightarrow> system \<Rightarrow> system" where
  "setMaxParallelJobs count s = s\<lparr>maxParallelJobs := max 1 count\<rparr>"

subsection \<open>Starting a job\<close>

text \<open>
  The \<open>catch\<close> block of \<open>startEncodingJob\<close>.  When its own \<open>updateJobStatus\<close>
  throws, the exception leaves the function and the lines after it do not run.
\<close>

definition startEncodingJob_catch :: "job \<times> media \<Rightarrow> error \<Rightarrow> system \<Rightarrow> system" where
  "startEncodingJob_catch jm e s =
     (case updateJobStatus (j_id (fst jm)) Failed [(''error_message'', SText (message e))] (store s) of
        Inl e' \<Rightarrow> s
      | Inr db \<Rightarrow> s\<lparr>store := db, activeJobs := activeJobs s - 1\<rparr>)"

text \<open>
  \<open>startEncodingJob\<close> up to its first \<open>await\<close>; a polling pass runs this part of
  every job it starts before anything else happens.
\<close>

definition startEncodingJob_begin :: "job \<times> media \<Rightarrow> system \<Rightarrow> system" where
  "startEncodingJob_begin jm s =
     (let s1 = s\<lparr>activeJobs := activeJobs s + 1\<rparr> in
      case updateJobStatus (j_id (fst jm)) Processing [] (store s1) of
        Inl e \<Rightarrow> startEncodingJob_catch jm e s1
      | Inr db \<Rightarrow> s1\<lparr>store := db, starting := starting s1 @ [jm]\<rparr>)"

definition ffmpegArgs :: "path \<Rightarrow> path \<Rightarrow> bool \<Rightarrow> string list" where
  "ffmpegArgs inputPath outputPath useHardwareAcceleration =
     (let args = [''-i'', join_with ''/'' inputPath,
                  ''-c:v'', if useHardwareAcceleration then ''hevc_qsv'' else ''libx265'',
                  ''-preset'', if useHardwareAcceleration then ''veryfast'' else ''medium'',
                  ''-crf'', ''28'', ''-pix_fmt'', ''p010le'', ''-tag:v'', ''hvc1'',
                  ''-c:a'', ''copy'', ''-c:s'', ''copy'', join_with ''/'' outputPath]
      in if useHardwareAcceleration
         then [''-hwaccel'', ''qsv'', ''-hwaccel_device'', ''0''] @ args
                @ [''-load_plugin'', ''hevc_hw'', ''-profile:v'', ''main10'']
         else args)"

text \<open>
  \<open>startFFmpegEncoding\<close>: the executor of the promise runs at once.  \<open>spawn\<close>
  either returns a process, whose handlers are then registered, or throws, and the
  \<open>catch\<close> block of the executor runs.
\<close>

definition startFFmpegEncoding ::
  "path \<Rightarrow> path \<Rightarrow> bool \<Rightarrow> bool \<Rightarrow> job \<times> media \<Rightarrow> system \<Rightarrow> system" where
  "startFFmpegEncoding inputPath outputPath useHardwareAcceleration spawn_ok jm s =
     (if spawn_ok then
        s\<lparr>running := running s @
             [\<lparr>p_job = jm, p_input = inputPath, p_output = outputPath,
               p_args = ffmpegArgs inputPath outputPath useHardwareAcceleration\<rparr>]\<rparr>
      else s\<lparr>activeJobs := activeJobs s - 1,
             activeJobsMap := activeJobsMap s - {j_id (fst jm)}\<rparr>)"

text \<open>
  What the environment answers while \<open>startEncodingJob\<close> continues: whether
  \<open>fs.ensureDir\<close> succeeds, whether \<open>getGpuInfo\<close> reports the GPU, whether
  \<open>spawn\<close> returns.
\<close>

record start_env =
  ensureDir_ok :: bool
  hasIntelArc :: bool
  spawn_ok :: bool

text \<open>\<open>startEncodingJob\<close> from the first \<open>await\<close> to its end.\<close>

definition startEncodingJob_resume :: "start_env \<Rightarrow> job \<times> media \<Rightarrow> system \<Rightarrow> system" where
  "startEncodingJob_resume env jm s =
     (if \<not> ensureDir_ok env then startEncodingJob_catch jm FsError s
      else
        (let tempFilePath = tmpdir s @ [''plex-encoder'', tempFileName (file_path (snd jm))] in
         case updateJobStatus (j_id (fst jm)) Processing
                [(''temp_file_path'', SPath tempFilePath)] (store s) of
           Inl e \<Rightarrow> startEncodingJob_catch jm e s
         | Inr db \<Rightarrow>
             (let s1 = startFFmpegEncoding (file_path (snd jm)) tempFilePath (hasIntelArc env)
                         (spawn_ok env) jm (s\<lparr>store := db\<rparr>)
              in s1\<lparr>activeJobsMap := insert (j_id (fst jm)) (activeJobsMap s1)\<rparr>)))"

subsection \<open>The polling pass\<close>

text \<open>
  \<open>processEncodingQueue\<close> without its timers: a pass can run at any time.  The loop
  calls \<open>startEncodingJob\<close> for each fetched job without awaiting it.
\<close>

definition processEncodingQueue :: "system \<Rightarrow> system" where
  "processEncodingQueue s =
     (if isQueuePaused s then s
      else
        (let availableSlots = maxParallelJobs s - activeJobs s in
         if availableSlots \<le> 0 then s
         else
           (let queuedJobs = getJobsByStatus Queued availableSlots (store s) in
            if length queuedJobs = 0 then s
            else fold startEncodingJob_begin queuedJobs s)))"

definition resumeQueue :: "system \<Rightarrow> system" where
  "resumeQueue s = processEncodingQueue (s\<lparr>isQueuePaused := False\<rparr>)"

subsection \<open>Finishing a job\<close>

text \<open>
  \<open>fs.move(src, dest, {overwrite: true})\<close> of \<open>fs-extra\<close> checks the two paths and
  makes the parent directory of \<open>dest\<close>, then removes \<open>dest\<close>, then renames
  \<open>src\<close> to \<open>dest\<close>; when the rename fails because the paths are on different
  devices it copies \<open>src\<close> to \<open>dest\<close> and removes \<open>src\<close>.  So the call ends
  in one of three ways.  \<open>Moved\<close>: it returns, and \<open>dest\<close> holds the bytes of
  \<open>src\<close>.  \<open>MoveRefused\<close>: it throws before \<open>dest\<close> is removed, and \<open>dest\<close>
  is as it was.  \<open>MoveBroken left\<close>: it throws after \<open>dest\<close> was removed, and
  \<open>left\<close> is what is then found under \<open>dest\<close>: nothing when the rename or the
  copy failed at once, the bytes that a failing copy had written, or all the bytes of
  \<open>src\<close> when only the removal of \<open>src\<close> failed.
\<close>

datatype move_outcome = Moved | MoveRefused | MoveBroken "string option"

text \<open>
  What the environment answers while the \<open>close\<close> handler of an encoder process
  runs: the exit code; the size \<open>fs.stat\<close> reports for the scratch file in the
  handler and in \<open>replaceOriginalFile\<close> (\<open>None\<close>: the call throws); whether
  \<open>fs.ensureDir\<close> succeeds; the answer of \<open>ffprobe\<close> (\<open>None\<close>: it throws,
  \<open>Some None\<close>: no video stream, \<open>Some (Some c)\<close>: the codec name of the video
  stream); how \<open>fs.move\<close> ends; the bytes of the scratch file.
\<close>

record close_env =
  exit_code :: int
  temp_stat :: "nat option"
  replace_dir_ok :: bool
  replace_stat :: "nat option"
  probe :: "string option option"
  move_result :: move_outcome
  encoded :: string

text \<open>
  \<open>((sourceFileSize - newSizeBytes) / sourceFileSize) * 100\<close>; \<open>None\<close> stands for
  the non-finite results of a division by zero.
\<close>

definition sizeReductionPercent :: "int \<Rightarrow> int \<Rightarrow> rat option" where
  "sizeReductionPercent sourceFileSize newSizeBytes =
     (if sourceFileSize = 0 then None
      else Some ((of_int (sourceFileSize - newSizeBytes) / of_int sourceFileSize) * 100))"

text \<open>
  The \<open>catch\<close> block of \<open>replaceOriginalFile\<close>.  The result is the exception that
  leaves the function: the caught one, rethrown at the end of the block, or the one
  thrown by the block's own \<open>updateJobStatus\<close>.
\<close>

definition replaceOriginalFile_catch :: "nat \<Rightarrow> error \<Rightarrow> system \<Rightarrow> error option \<times> system" where
  "replaceOriginalFile_catch jobId e s =
     (case updateJobStatus jobId Failed
             [(''error_message'', SText (''Error replacing original file: '' @ message e))]
             (store s) of
        Inl e' \<Rightarrow> (Some e', s)
      | Inr db \<Rightarrow>
          (Some e, s\<lparr>store := db, activeJobs := activeJobs s - 1,
                     activeJobsMap := activeJobsMap s - {jobId}\<rparr>))"

text \<open>
  \<open>replaceOriginalFile\<close>.  The only file operation that writes is \<open>fs.move\<close>,
  from \<open>tempPath\<close> to \<open>originalPath\<close>.  When the two paths are the same,
  \<open>fs.move\<close> finds source and destination identical and throws before it removes
  anything.  When it returns, \<open>originalPath\<close> holds the encoded bytes and nothing is
  left under \<open>tempPath\<close>.  \<open>getJobById\<close> returning nothing makes \<open>job.media_id\<close>
  throw a \<open>TypeError\<close>.  The result \<open>None\<close> is the normal return.
\<close>

definition replaceOriginalFile ::
  "path \<Rightarrow> path \<Rightarrow> nat \<Rightarrow> close_env \<Rightarrow> system \<Rightarrow> error option \<times> system" where
  "replaceOriginalFile originalPath tempPath jobId env s =
     (if \<not> replace_dir_ok env then replaceOriginalFile_catch jobId FsError s
      else
        (case replace_stat env of
           None \<Rightarrow> replaceOriginalFile_catch jobId FsError s
         | Some tempSize \<Rightarrow>
             if tempSize = 0 then replaceOriginalFile_catch jobId EncodedFileEmpty s
             else
               (case probe env of
                  None \<Rightarrow> replaceOriginalFile_catch jobId ProbeError s
                | Some videoStream \<Rightarrow>
                    (let newEncodingType =
                           (case videoStream of Some codec_name \<Rightarrow> codec_name | None \<Rightarrow> ''unknown'')
                     in case (if tempPath = originalPath then MoveRefused else move_result env) of
                          MoveRefused \<Rightarrow> replaceOriginalFile_catch jobId FsError s
                        | MoveBroken left \<Rightarrow>
                            replaceOriginalFile_catch jobId FsError
                              (s\<lparr>files := (files s)(originalPath := left)\<rparr>)
                        | Moved \<Rightarrow>
                          (let s1 = s\<lparr>files := (files s)(tempPath := None,
                                                           originalPath \<mapsto> encoded env)\<rparr> in
                           case getJobById jobId (store s1) of
                             None \<Rightarrow> replaceOriginalFile_catch jobId TypeError s1
                           | Some jm \<Rightarrow>
                               (let s2 = s1\<lparr>store := markMediaAsEncoded (media_id (fst jm))
                                                       newEncodingType (int tempSize) (store s1)\<rparr>
                                in case updateJobStatus jobId Completed [] (store s2) of
                                     Inl e \<Rightarrow> replaceOriginalFile_catch jobId e s2
                                   | Inr db \<Rightarrow>
                                       (None, s2\<lparr>store := db, activeJobs := activeJobs s2 - 1,
                                                  activeJobsMap := activeJobsMap s2 - {jobId}\<rparr>)))))))"

text \<open>The \<open>try\<close> block of the \<open>close\<close> handler for exit code 0.\<close>

definition close_try :: "close_env \<Rightarrow> proc \<Rightarrow> system \<Rightarrow> error option \<times> system" where
  "close_try env p s =
     (case temp_stat env of
        None \<Rightarrow> (Some FsError, s)
      | Some newSizeBytes \<Rightarrow>
          (case updateJobStatus (j_id (fst (p_job p))) ReplacingFile
                  [(''new_size_bytes'', SInt (int newSizeBytes)),
                   (''size_reduction_percent'',
                    SReal (sizeReductionPercent (original_size_bytes (fst (p_job p)))
                             (int newSizeBytes)))]
                  (store s) of
             Inl e \<Rightarrow> (Some e, s)
           | Inr db \<Rightarrow>
               replaceOriginalFile (p_input p) (p_output p) (j_id (fst (p_job p))) env
                 (s\<lparr>store := db\<rparr>)))"

text \<open>
  The three places that mark a job \<open>failed\<close> and release its slot: the \<open>catch\<close>
  block of the \<open>close\<close> handler, its branch for a non-zero exit code, and the
  \<open>error\<close> handler.  Each calls \<open>updateJobStatus\<close> first; when that throws, the
  exception leaves the handler (the result \<open>Some\<close>) and the slot is not released.
\<close>

definition fail_and_release :: "nat \<Rightarrow> string \<Rightarrow> system \<Rightarrow> error option \<times> system" where
  "fail_and_release jobId msg s =
     (case updateJobStatus jobId Failed [(''error_message'', SText msg)] (store s) of
        Inl e' \<Rightarrow> (Some e', s)
      | Inr db \<Rightarrow>
          (None, s\<lparr>store := db, activeJobs := activeJobs s - 1,
                    activeJobsMap := activeJobsMap s - {jobId}\<rparr>))"

definition closeHandler :: "close_env \<Rightarrow> proc \<Rightarrow> system \<Rightarrow> error option \<times> system" where
  "closeHandler env p s =
     (if exit_code env = 0 then
        (case close_try env p s of
           (None, s') \<Rightarrow> (None, s')
         | (Some e, s') \<Rightarrow>
             fail_and_release (j_id (fst (p_job p))) (''Error finalizing: '' @ message e) s')
      else
        fail_and_release (j_id (fst (p_job p))) ''FFmpeg encoding failed'' s)"

definition errorHandler :: "string \<Rightarrow> proc \<Rightarrow> system \<Rightarrow> error option \<times> system" where
  "errorHandler msg p s =
     fail_and_release (j_id (fst (p_job p))) (''Process error: '' @ msg) s"

section \<open>The system as a whole\<close>

text \<open>
  The things that can happen to the running program.  A file that the scanner or the
  watcher hands to \<open>addMedia\<close>; an admission pass; a polling pass; the continuation of
  the \<open>k\<close>-th suspended \<open>startEncodingJob\<close>; the \<open>close\<close> and the \<open>error\<close>
  event of the \<open>k\<close>-th encoder process; the calls of the control surface; a tick of
  the clock.
\<close>

datatype event =
    ScanFile media_info
  | Admit
  | Poll
  | StartResume nat start_env
  | ProcClose nat close_env
  | ProcError nat string
  | Restart nat
  | Pause
  | Resume
  | SetMax int
  | Tick

definition remove_nth :: "nat \<Rightarrow> 'a list \<Rightarrow> 'a list" where
  "remove_nth k xs = take k xs @ drop (Suc k) xs"

fun step :: "event \<Rightarrow> system \<Rightarrow> system" where
  "step (ScanFile mediaInfo) s = s\<lparr>store := snd (addMedia mediaInfo (store s))\<rparr>"
| "step Admit s = s\<lparr>store := snd (queueEncodingJobs (store s))\<rparr>"
| "step Poll s = processEncodingQueue s"
| "step (StartResume k env) s =
     (if k < length (starting s)
      then startEncodingJob_resume env (starting s ! k) (s\<lparr>starting := remove_nth k (starting s)\<rparr>)
      else s)"
| "step (ProcClose k env) s =
     (if k < length (running s)
      then snd (closeHandler env (running s ! k) (s\<lparr>running := remove_nth k (running s)\<rparr>))
      else s)"
| "step (ProcError k msg) s =
     (if k < length (running s) then snd (errorHandler msg (running s ! k) s) else s)"
| "step (Restart jobId) s =
     (case restartJob jobId (store s) of Inl e \<Rightarrow> s | Inr db \<Rightarrow> s\<lparr>store := db\<rparr>)"
| "step Pause s = pauseQueue s"
| "step Resume s = resumeQueue s"
| "step (SetMax n) s = setMaxParallelJobs n s"
| "step Tick s = s\<lparr>store := (store s)\<lparr>clock := Suc (clock (store s))\<rparr>\<rparr>"

definition run :: "event list \<Rightarrow> system \<Rightarrow> system" where
  "run evs s = fold step evs s"

text \<open>The jobs a polling pass starts: the calls it adds to the suspended ones.\<close>

definition started_by_pass :: "system \<Rightarrow> (job \<times> media) list" where
  "started_by_pass s = drop (length (starting s)) (starting (processEncodingQueue s))"

text \<open>Sample answers of the environment.\<close>

definition start_ok :: start_env where
  "start_ok = \<lparr>ensureDir_ok = True, hasIntelArc = False, spawn_ok = True\<rparr>"

definition close_with :: "int \<Rightarrow> close_env" where
  "close_with code =
     \<lparr>exit_code = code, temp_stat = Some 400, replace_dir_ok = True, replace_stat = Some 400,
      probe = Some (Some ''hevc''), move_result = Moved, encoded = ''new bytes''\<rparr>"

text \<open>The ids of the job rows of a state.\<close>

definition job_ids :: "system \<Rightarrow> nat list" where
  "job_ids s = map j_id (jobs_tbl (store s))"

definition is_scan :: "event \<Rightarrow> bool" where
  "is_scan e = (case e of ScanFile mediaInfo \<Rightarrow> True | _ \<Rightarrow> False)"

text \<open>
  A job is cascaded by an event when the event is an upsert of the file path under
  which the job's media row is stored: the upsert replaces that media row.
\<close>

definition cascaded :: "event \<Rightarrow> system \<Rightarrow> job \<Rightarrow> bool" where
  "cascaded e s j =
     (case e of
        ScanFile mediaInfo \<Rightarrow>
          media_id j \<in> set (map m_id (rows_of_path (mi_file_path mediaInfo) (store s)))
      | _ \<Rightarrow> False)"

text \<open>
  A sample run: job 1 is queued; a polling pass starts it, its \<open>startEncodingJob\<close>
  continues and spawns the encoder, and the encoder exits with the given code.
\<close>

definition sample_run :: "int \<Rightarrow> system" where
  "sample_run code =
     run [Poll, StartResume 0 start_ok, ProcClose 0 (close_with code)]
       (init_system (sample_db Queued))"


subsection \<open>The replacement step in the words of the specification\<close>






section \<open>The window scheduler (\<open>scheduler.js\<close>)\<close>

record schedule_item =
  sch_id :: nat
  days_of_week :: string
  start_time :: string
  end_time :: string
  max_parallel_jobs :: int
  sch_active :: bool

text \<open>What \<open>new Date()\<close> answers: \<open>getDay()\<close>, \<open>getHours()\<close>, \<open>getMinutes()\<close>.\<close>

record wall_clock =
  day :: nat
  hours :: nat
  minutes :: nat

text \<open>\<open>Number.prototype.toString\<close> of a natural number, and \<open>padStart\<close>.\<close>

definition digit_char :: "nat \<Rightarrow> char" where
  "digit_char d = ''0123456789'' ! (d mod 10)"

function toString :: "nat \<Rightarrow> string" where
  "toString n = (if n < 10 then [digit_char n] else toString (n div 10) @ [digit_char (n mod 10)])"
  by pat_completeness auto
termination
  by (relation "measure id") auto

declare toString.simps [simp del]

definition padStart :: "nat \<Rightarrow> char \<Rightarrow> string \<Rightarrow> string" where
  "padStart k c s = replicate (k - length s) c @ s"

definition currentTime :: "wall_clock \<Rightarrow> string" where
  "currentTime now =
     padStart 2 CHR ''0'' (toString (hours now)) @ '':'' @ padStart 2 CHR ''0'' (toString (minutes now))"

subsection \<open>\<open>Number\<close> and \<open>Array.prototype.includes\<close>\<close>

text \<open>
  A string is a list of code units below 256.  \<open>Number(text)\<close> follows the grammar
  \<open>StringNumericLiteral\<close> of ECMAScript: white space and line terminators around the
  text are dropped; the empty text is 0; \<open>0x\<close>, \<open>0o\<close> and \<open>0b\<close> start an
  unsigned literal in radix 16, 8 and 2; otherwise the text is an optional sign followed
  by \<open>Infinity\<close> or by a decimal literal with an optional fraction and an optional
  exponent.  Every other text gives \<open>NaN\<close>.
\<close>

definition js_whitespace :: "char \<Rightarrow> bool" where
  "js_whitespace c =
     (c \<in> set [CHR 0x09, CHR 0x0A, CHR 0x0B, CHR 0x0C, CHR 0x0D, CHR 0x20, CHR 0xA0])"

definition js_trim :: "string \<Rightarrow> string" where
  "js_trim s = rev (dropWhile js_whitespace (rev (dropWhile js_whitespace s)))"

text \<open>
  A number as \<open>Number\<close> reads it: not-a-number, an infinity with its sign, or the
  exact value the text denotes.  The value a JavaScript number holds is the double
  nearest to that exact value; the rounding is done where the number is compared
  (\<open>rounds_to\<close> below).
\<close>

datatype js_number = NaN | Infinity bool | Finite rat

definition digit_of :: "nat \<Rightarrow> char \<Rightarrow> nat option" where
  "digit_of radix c =
     (case map_of (zip ''0123456789abcdef'' [0, 1, 2, 3, 4, 5, 6, 7, 8, 9, 10, 11, 12, 13, 14, 15])
             (lower_char c) of
        None \<Rightarrow> None
      | Some v \<Rightarrow> if v < radix then Some v else None)"

fun digits_value :: "nat \<Rightarrow> nat \<Rightarrow> string \<Rightarrow> nat option" where
  "digits_value radix acc [] = Some acc"
| "digits_value radix acc (c # cs) =
     (case digit_of radix c of
        None \<Rightarrow> None
      | Some d \<Rightarrow> digits_value radix (radix * acc + d) cs)"

text \<open>The digits after \<open>0x\<close>, \<open>0o\<close> or \<open>0b\<close>: at least one, all of the radix.\<close>

definition radix_literal :: "nat \<Rightarrow> string \<Rightarrow> js_number" where
  "radix_literal radix ds =
     (if ds = [] then NaN
      else (case digits_value radix 0 ds of None \<Rightarrow> NaN | Some n \<Rightarrow> Finite (of_nat n)))"

definition is_decimal_digit :: "char \<Rightarrow> bool" where
  "is_decimal_digit c = (c \<in> set ''0123456789'')"

text \<open>\<open>SignedInteger\<close>: an optional sign and at least one decimal digit.\<close>

definition signed_integer :: "string \<Rightarrow> int option" where
  "signed_integer t =
     (let negative = (take 1 t = ''-'');
          ds = (if take 1 t = ''-'' \<or> take 1 t = ''+'' then drop 1 t else t)
      in if ds = [] then None
         else (case digits_value 10 0 ds of
                 None \<Rightarrow> None
               | Some n \<Rightarrow> Some (if negative then - int n else int n)))"

text \<open>What follows the digits of a decimal literal: nothing, or \<open>e\<close> and an exponent.\<close>

definition exponent_part :: "string \<Rightarrow> int option" where
  "exponent_part t =
     (case t of
        [] \<Rightarrow> Some 0
      | c # r \<Rightarrow> if lower_char c = CHR ''e'' then signed_integer r else None)"

definition pow10 :: "int \<Rightarrow> rat" where
  "pow10 e = (if 0 \<le> e then 10 ^ nat e else 1 / 10 ^ nat (- e))"

text \<open>
  \<open>StrUnsignedDecimalLiteral\<close> without \<open>Infinity\<close>: digits, an optional dot with
  digits, an optional exponent; there must be a digit before or after the dot.
\<close>

definition unsigned_decimal :: "string \<Rightarrow> rat option" where
  "unsigned_decimal t =
     (let whole = takeWhile is_decimal_digit t;
          r1 = dropWhile is_decimal_digit t;
          dot = (take 1 r1 = ''.'');
          fraction = (if dot then takeWhile is_decimal_digit (drop 1 r1) else []);
          r2 = (if dot then dropWhile is_decimal_digit (drop 1 r1) else r1)
      in if whole = [] \<and> fraction = [] then None
         else (case digits_value 10 0 whole of
                 None \<Rightarrow> None
               | Some w \<Rightarrow>
                   (case digits_value 10 0 fraction of
                      None \<Rightarrow> None
                    | Some f \<Rightarrow>
                        (case exponent_part r2 of
                           None \<Rightarrow> None
                         | Some e \<Rightarrow>
                             Some ((of_nat w + of_nat f / 10 ^ length fraction) * pow10 e)))))"

definition signed_decimal :: "string \<Rightarrow> js_number" where
  "signed_decimal t =
     (let negative = (take 1 t = ''-'');
          body = (if take 1 t = ''-'' \<or> take 1 t = ''+'' then drop 1 t else t)
      in if body = ''Infinity'' then Infinity negative
         else (case unsigned_decimal body of
                 None \<Rightarrow> NaN
               | Some x \<Rightarrow> Finite (if negative then - x else x)))"

definition js_Number :: "string \<Rightarrow> js_number" where
  "js_Number s =
     (let t = js_trim s in
      if t = [] then Finite 0
      else if map lower_char (take 2 t) = ''0x'' then radix_literal 16 (drop 2 t)
      else if map lower_char (take 2 t) = ''0o'' then radix_literal 8 (drop 2 t)
      else if map lower_char (take 2 t) = ''0b'' then radix_literal 2 (drop 2 t)
      else signed_decimal t)"

text \<open>
  \<open>rounds_to x d\<close>: the double nearest to \<open>x\<close> is the natural number \<open>d\<close>, for
  \<open>d\<close> below \<open>2 ^ 52\<close>.  Let \<open>e\<close> be \<open>floor_log2 d\<close>, so that
  \<open>2 ^ e \<le> d < 2 ^ (e + 1)\<close> for \<open>d > 0\<close>.  The doubles above \<open>d\<close> are
  \<open>2 ^ e / 2 ^ 52\<close> apart, and so are those below it, unless \<open>d = 2 ^ e\<close>, where
  they are half as far apart; around 0 the nearest doubles are \<open>1 / 2 ^ 1074\<close> away.
  A value half-way between \<open>d\<close> and a neighbour is rounded to \<open>d\<close>, whose last bit
  is even.
\<close>

fun floor_log2 :: "nat \<Rightarrow> nat" where
  "floor_log2 n = (if n < 2 then 0 else Suc (floor_log2 (n div 2)))"

declare floor_log2.simps [simp del]

definition rounds_to :: "rat \<Rightarrow> nat \<Rightarrow> bool" where
  "rounds_to x d =
     (if d = 0 then \<bar>x\<bar> \<le> 1 / 2 ^ 1075
      else (let e = floor_log2 d;
                above = 2 ^ e / 2 ^ 52;
                below = (if d = 2 ^ e then above / 2 else above)
            in of_nat d - below / 2 \<le> x \<and> x \<le> of_nat d + above / 2))"

text \<open>
  \<open>array.includes(d)\<close> for a weekday \<open>d\<close>: some element is the number \<open>d\<close>.
  \<open>NaN\<close> and the infinities are no weekday.
\<close>

definition includes_day :: "js_number list \<Rightarrow> nat \<Rightarrow> bool" where
  "includes_day xs d =
     list_ex (\<lambda>v. case v of Finite x \<Rightarrow> rounds_to x d | _ \<Rightarrow> False) xs"

definition daysArray :: "schedule_item \<Rightarrow> js_number list" where
  "daysArray item = map js_Number (split_on CHR '','' (days_of_week item))"

subsection \<open>\<open>checkIfScheduleShouldBeActive\<close>\<close>

text \<open>
  The operators \<open><=\<close> and \<open>>=\<close> on two strings compare them code unit by code
  unit; \<open>str_le a b\<close> is \<open>a <= b\<close>.
\<close>

fun str_le :: "string \<Rightarrow> string \<Rightarrow> bool" where
  "str_le [] ys = True"
| "str_le (x # xs) [] = False"
| "str_le (x # xs) (y # ys) = (if x = y then str_le xs ys else (of_char x :: nat) < of_char y)"

text \<open>The calls the scheduler makes on the dispatch engine.\<close>

datatype signal = SigPause | SigResume | SigSetLimit int

text \<open>
  \<open>checkIfScheduleShouldBeActive\<close>: the calls it makes, in order, and the state of
  the engine after them.
\<close>

definition checkIfScheduleShouldBeActive ::
  "schedule_item \<Rightarrow> wall_clock \<Rightarrow> system \<Rightarrow> signal list \<times> system" where
  "checkIfScheduleShouldBeActive scheduleItem now s =
     (if includes_day (daysArray scheduleItem) (day now) then
        (if str_le (start_time scheduleItem) (currentTime now)
            \<and> str_le (currentTime now) (end_time scheduleItem)
         then ([SigResume, SigSetLimit (max_parallel_jobs scheduleItem)],
               setMaxParallelJobs (max_parallel_jobs scheduleItem) (resumeQueue s))
         else ([SigPause], pauseQueue s))
      else ([SigPause], pauseQueue s))"

subsection \<open>The rule in the words of the specification\<close>

text \<open>
  A rule applies to a set of weekdays, numbered 0 to 6.  The settings form stores the
  set as the numerals of its days, joined by commas.
\<close>

definition weekday_text :: "nat \<Rightarrow> string" where
  "weekday_text d = [''0123456'' ! d]"

fun weekdays_text :: "nat list \<Rightarrow> string" where
  "weekdays_text [] = []"
| "weekdays_text [d] = weekday_text d"
| "weekdays_text (d # e # ds) = weekday_text d @ '','' @ weekdays_text (e # ds)"

text \<open>The zero-padded time of day \<open>HH:MM\<close>.\<close>

definition two_digits :: "nat \<Rightarrow> string" where
  "two_digits n = [''0123456789'' ! (n div 10), ''0123456789'' ! (n mod 10)]"

definition clock_text :: "wall_clock \<Rightarrow> string" where
  "clock_text now = two_digits (hours now) @ '':'' @ two_digits (minutes now)"

text \<open>
  Lexicographic order on strings by character code, from the library's
  \<^const>\<open>lexord\<close>: \<open>a\<close> is a proper prefix of \<open>b\<close>, or the first character in
  which they differ is smaller in \<open>a\<close>.
\<close>

definition lex_le :: "string \<Rightarrow> string \<Rightarrow> bool" where
  "lex_le a b = (a = b \<or> (a, b) \<in> lexord {(x, y). (of_char x :: nat) < of_char y})"

definition within_window :: "schedule_item \<Rightarrow> wall_clock \<Rightarrow> bool" where
  "within_window item now =
     (lex_le (start_time item) (clock_text now) \<and> lex_le (clock_text now) (end_time item))"

text \<open>
  What the specification expects of a rule for the weekdays \<open>ws\<close>, with the limit
  as the engine keeps it: at least 1.
\<close>

definition expected_signals :: "nat list \<Rightarrow> schedule_item \<Rightarrow> wall_clock \<Rightarrow> signal list" where
  "expected_signals ws item now =
     (if day now \<notin> set ws then [SigPause]
      else if within_window item now then [SigResume, SigSetLimit (max_parallel_jobs item)]
      else [SigPause])"

definition sample_rule :: schedule_item where
  "sample_rule =
     \<lparr>sch_id = 1, days_of_week = ''0,1,2,3,4,5,6'', start_time = ''00:00'', end_time = ''23:59'',
      max_parallel_jobs = 3, sch_active = True\<rparr>"

definition weekend_rule :: schedule_item where
  "weekend_rule =
     \<lparr>sch_id = 2, days_of_week = ''0,6'', start_time = ''22:00'', end_time = ''06:00'',
      max_parallel_jobs = 0, sch_active = True\<rparr>"

text \<open>A rule with the limit 0, and a rule for which no weekday was selected.\<close>

definition zero_limit_rule :: schedule_item where
  "zero_limit_rule =
     \<lparr>sch_id = 3, days_of_week = ''0,1,2,3,4,5,6'', start_time = ''00:00'', end_time = ''23:59'',
      max_parallel_jobs = 0, sch_active = True\<rparr>"

definition no_day_rule :: schedule_item where
  "no_day_rule =
     \<lparr>sch_id = 4, days_of_week = [], start_time = ''00:00'', end_time = ''23:59'',
      max_parallel_jobs = 3, sch_active = True\<rparr>"

section \<open>The discovery engine (\<open>scanner.js\<close>)\<close>

definition mediaExtensions :: "string list" where
  "mediaExtensions =
     [''.mp4'', ''.mkv'', ''.avi'', ''.mov'', ''.wmv'', ''.m4v'', ''.mpg'', ''.mpeg'', ''.flv'']"

definition isMediaFile :: "string \<Rightarrow> bool" where
  "isMediaFile filename = (toLowerCase (extname filename) \<in> set mediaExtensions)"

subsection \<open>\<open>extractMediaInfo\<close>\<close>

definition is_digit :: "char \<Rightarrow> bool" where
  "is_digit c = (c \<in> set ''0123456789'')"

text \<open>
  The regular expression \<open>/S(\d+)E(\d+)|(\d+)x(\d+)/i\<close> matches a text when one of
  its two alternatives matches at the start of some suffix of the text.
\<close>

definition digits_then :: "char \<Rightarrow> string \<Rightarrow> bool" where
  "digits_then sep t =
     (case t of
        [] \<Rightarrow> False
      | d # r \<Rightarrow>
          is_digit d \<and>
          (case dropWhile is_digit r of
             [] \<Rightarrow> False
           | c # r2 \<Rightarrow> lower_char c = sep \<and> (case r2 of [] \<Rightarrow> False | d2 # r3 \<Rightarrow> is_digit d2)))"

definition matches_here :: "string \<Rightarrow> bool" where
  "matches_here t =
     ((case t of [] \<Rightarrow> False | c # r \<Rightarrow> lower_char c = CHR ''s'' \<and> digits_then CHR ''e'' r)
      \<or> digits_then CHR ''x'' t)"

fun episodeMatch :: "string \<Rightarrow> bool" where
  "episodeMatch [] = False"
| "episodeMatch (c # cs) = (matches_here (c # cs) \<or> episodeMatch cs)"

text \<open>Title, episode name and media type of a file.\<close>

definition extractMediaInfo :: "path \<Rightarrow> string \<times> string option \<times> string" where
  "extractMediaInfo filePath =
     (let fileName = fst (split_ext (basename filePath));
          dirName = basename (dirname filePath)
      in if episodeMatch fileName then (dirName, Some fileName, ''tv'')
         else (fileName, None, ''movie''))"

subsection \<open>\<open>processMediaFile\<close>\<close>

text \<open>
  The answer of \<open>ffprobe\<close> for a file: \<open>None\<close> when the call fails,
  \<open>Some None\<close> when the file has no video stream, \<open>Some (Some c)\<close> with the codec
  name of the first video stream otherwise.
\<close>

type_synonym prober = "path \<Rightarrow> string option option"

text \<open>
  \<open>processMediaFile\<close> returns \<open>null\<close> (\<open>Inr None\<close>), the pair of the media id and
  the flag (\<open>Inr (Some _)\<close>), or rethrows the probe error (\<open>Inl\<close>).
\<close>

definition processMediaFile ::
  "prober \<Rightarrow> path \<Rightarrow> nat \<Rightarrow> database \<Rightarrow> (error + (nat \<times> bool) option) \<times> database" where
  "processMediaFile ffprobe filePath fileSize db =
     (case ffprobe filePath of
        None \<Rightarrow> (Inl ProbeError, db)
      | Some None \<Rightarrow> (Inr None, db)
      | Some (Some codec_name) \<Rightarrow>
          (let info = extractMediaInfo filePath;
               mediaInfo = \<lparr>mi_title = fst info,
                            mi_episode_name = fst (snd info),
                            mi_directory = dirname filePath,
                            mi_file_path = filePath,
                            mi_file_size_bytes = int fileSize,
                            mi_encoding_type = codec_name,
                            mi_media_type = snd (snd info)\<rparr>;
               r = addMedia mediaInfo db;
               needsEncoding = needsEncoding_of codec_name
           in (Inr (Some (fst r, needsEncoding)), snd r)))"

subsection \<open>\<open>scanDirectory\<close>\<close>

text \<open>
  What the scan finds under a directory.  An entry of a listing is a name for which
  \<open>fs.stat\<close> throws, a file with its size, a directory with its own listing, or a
  directory for which \<open>fs.readdir\<close> throws.
\<close>

datatype fs_entry =
    StatFails string
  | File string nat
  | Dir string "fs_entry list"
  | UnreadableDir string

record scan_results =
  scanned :: nat
  added :: nat
  errors :: nat
  needsEncoding :: nat

text \<open>
  The state a scan threads through: its counters, the database, and the files it has
  handed to \<open>processMediaFile\<close>, in order.
\<close>

record scan_state =
  results :: scan_results
  scan_db :: database
  visited :: "path list"

definition count_error :: "scan_state \<Rightarrow> scan_state" where
  "count_error st = st\<lparr>results := (results st)\<lparr>errors := errors (results st) + 1\<rparr>\<rparr>"

text \<open>One media file of the loop body: the counter, the call, the inner \<open>try\<close>.\<close>

definition scanFile :: "prober \<Rightarrow> path \<Rightarrow> nat \<Rightarrow> scan_state \<Rightarrow> scan_state" where
  "scanFile ffprobe fullPath fileSize st =
     (let st1 = st\<lparr>results := (results st)\<lparr>scanned := scanned (results st) + 1\<rparr>,
                   visited := visited st @ [fullPath]\<rparr>;
          r = processMediaFile ffprobe fullPath fileSize (scan_db st1);
          st2 = st1\<lparr>scan_db := snd r\<rparr>
      in case fst r of
           Inl e \<Rightarrow> count_error st2
         | Inr None \<Rightarrow> st2
         | Inr (Some a) \<Rightarrow>
             st2\<lparr>results := (results st2)
                    \<lparr>added := added (results st2) + 1,
                     needsEncoding := needsEncoding (results st2) + (if snd a then 1 else 0)\<rparr>\<rparr>)"

text \<open>
  \<open>scanEntries\<close> is the \<open>for\<close> loop of \<open>scanDirectory\<close>, inside the outer
  \<open>try\<close>: its result \<open>Some\<close> is an exception that leaves the loop.
  \<open>scanDirectory\<close> is the function with its outer \<open>catch\<close>, applied to what
  \<open>fs.readdir\<close> answers (\<open>None\<close>: it throws).
\<close>

fun scanEntries :: "prober \<Rightarrow> path \<Rightarrow> fs_entry list \<Rightarrow> scan_state \<Rightarrow> error option \<times> scan_state" where
  "scanEntries ffprobe dirPath [] st = (None, st)"
| "scanEntries ffprobe dirPath (StatFails name # rest) st = (Some FsError, st)"
| "scanEntries ffprobe dirPath (File name fileSize # rest) st =
     (if isMediaFile name
      then scanEntries ffprobe dirPath rest (scanFile ffprobe (dirPath @ [name]) fileSize st)
      else scanEntries ffprobe dirPath rest st)"
| "scanEntries ffprobe dirPath (Dir name listing # rest) st =
     scanEntries ffprobe dirPath rest
       (case scanEntries ffprobe (dirPath @ [name]) listing st of
          (None, st') \<Rightarrow> st'
        | (Some e, st') \<Rightarrow> count_error st')"
| "scanEntries ffprobe dirPath (UnreadableDir name # rest) st =
     scanEntries ffprobe dirPath rest (count_error st)"

definition scanDirectory :: "prober \<Rightarrow> path \<Rightarrow> fs_entry list option \<Rightarrow> scan_state \<Rightarrow> scan_state" where
  "scanDirectory ffprobe dirPath listing st =
     (case listing of
        None \<Rightarrow> count_error st
      | Some entries \<Rightarrow>
          (case scanEntries ffprobe dirPath entries st of
             (None, st') \<Rightarrow> st'
           | (Some e, st') \<Rightarrow> count_error st'))"

definition scan_start :: "database \<Rightarrow> scan_state" where
  "scan_start db =
     \<lparr>results = \<lparr>scanned = 0, added = 0, errors = 0, needsEncoding = 0\<rparr>, scan_db = db,
      visited = []\<rparr>"

subsection \<open>Vocabulary of the scan\<close>




text \<open>A sample library and sample answers of \<open>ffprobe\<close>.\<close>

definition sample_probe :: prober where
  "sample_probe p =
     (if p = [''lib'', ''bad.mkv''] then None
      else if p = [''lib'', ''new.mkv''] then Some (Some ''hevc'')
      else Some (Some ''h264''))"






text \<open>A job that is waiting or being encoded.\<close>

definition queued_or_processing :: "job \<Rightarrow> bool" where
  "queued_or_processing j = (status j = Queued \<or> status j = Processing)"

chapter \<open>Properties\<close>

section \<open>Helper facts about the store\<close>

lemmas sample_defs = sample_info_def sample_media_def sample_job_def sample_db_def empty_db_def

lemmas codec_defs = needsEncoding_of_def accepted_codecs_def toLowerCase_def lower_char_def

lemma fold_max_ge_seed: "(s::nat) \<le> fold max ids s"
  by (induction ids arbitrary: s) (auto intro: order_trans [OF max.cobounded2])

lemma fold_max_ge_member: "(x::nat) \<in> set ids \<Longrightarrow> x \<le> fold max ids s"
proof (induction ids arbitrary: s)
  case Nil
  then show ?case by simp
next
  case (Cons a ids)
  show ?case
  proof (cases "x = a")
    case True
    have "max a s \<le> fold max ids (max a s)" by (rule fold_max_ge_seed)
    with True show ?thesis by simp
  next
    case False
    with Cons show ?thesis by simp
  qed
qed

lemma fresh_id_gt_seq: "s < fresh_id s ids"
  using fold_max_ge_seed [of s ids] by (simp add: fresh_id_def)

lemma fresh_id_gt_member: "x \<in> set ids \<Longrightarrow> x < fresh_id s ids"
  using fold_max_ge_member [of x ids s] by (simp add: fresh_id_def)

lemma addMedia_fst: "fst (addMedia mi db) = fresh_id (media_seq db) (map m_id (media_tbl db))"
  by (simp add: addMedia_def Let_def)

lemma addMedia_seq: "media_seq (snd (addMedia mi db)) = fst (addMedia mi db)"
  by (simp add: addMedia_def Let_def)

lemma addMedia_rows_of_path:
  "rows_of_path (mi_file_path mi) (snd (addMedia mi db)) =
     [\<lparr>m_id = fst (addMedia mi db), title = mi_title mi,
       episode_name = or_null (mi_episode_name mi), directory = mi_directory mi,
       file_path = mi_file_path mi, file_size_bytes = mi_file_size_bytes mi,
       encoding_type = mi_encoding_type mi, media_type = mi_media_type mi,
       last_updated = clock db, needs_encoding = needsEncoding_of (mi_encoding_type mi),
       encoded_previously = False, m_created_at = clock db\<rparr>]"
  by (simp add: addMedia_def Let_def rows_of_path_def)

lemma addMedia_ids:
  "set (map m_id (media_tbl (snd (addMedia mi db)))) \<subseteq>
     insert (fst (addMedia mi db)) (m_id ` {m \<in> set (media_tbl db). file_path m \<noteq> mi_file_path mi})"
  by (auto simp: addMedia_def Let_def)

section \<open>Facts about \<open>updateJobStatus\<close>\<close>

text \<open>
  For the statuses \<open>failed\<close> and \<open>replacing_file\<close> the assembled statement ends
  its list of assignments with a comma, whatever values are bound: SQLite rejects it.
\<close>

lemmas sql_defs = updateJobStatus_def setlist_ok_def set_clause_def updates_sql_def timestamp_sql_def
  blank_def is_space_def

lemma update_failed_rejected:
  "updateJobStatus jobId Failed [(''error_message'', v)] db =
     Inl (SqliteError ''UPDATE encoding_jobs SET status = ?, error_message = ?,   WHERE id = ?'')"
  by (simp add: sql_defs)

lemma update_replacing_rejected:
  "updateJobStatus jobId ReplacingFile [(''new_size_bytes'', a), (''size_reduction_percent'', b)] db =
     Inl (SqliteError
       ''UPDATE encoding_jobs SET status = ?, new_size_bytes = ?, size_reduction_percent = ?,   WHERE id = ?'')"
  by (simp add: sql_defs)

lemma set_column_id: "set_column kv j = Some j' \<Longrightarrow> j_id j' = j_id j \<and> media_id j' = media_id j"
  by (auto simp: set_column_def split: if_splits sqlval.splits)

lemma set_columns_id: "set_columns kvs j = Some j' \<Longrightarrow> j_id j' = j_id j \<and> media_id j' = media_id j"
proof (induction kvs arbitrary: j)
  case Nil
  then show ?case by simp
next
  case (Cons kv kvs)
  then show ?case
    by (auto split: option.splits dest!: set_column_id)
qed

lemma updated_row_id: "updated_row st data t j = Some j' \<Longrightarrow> j_id j' = j_id j \<and> media_id j' = media_id j"
  by (auto simp: updated_row_def set_timestamp_def split: option.splits dest!: set_columns_id)

lemma update_rows_ids:
  "update_rows jobId st data t js = Some js' \<Longrightarrow> map j_id js' = map j_id js \<and> map media_id js' = map media_id js"
proof (induction js arbitrary: js')
  case Nil
  then show ?case by simp
next
  case (Cons j js)
  then show ?case
    by (auto split: option.splits if_splits dest!: updated_row_id)
qed

lemma updateJobStatus_frame:
  assumes "updateJobStatus jobId st data db = Inr db'"
  shows "map j_id (jobs_tbl db') = map j_id (jobs_tbl db)"
    and "map media_id (jobs_tbl db') = map media_id (jobs_tbl db)"
    and "media_tbl db' = media_tbl db"
  using assms
  by (auto simp: updateJobStatus_def split: if_splits option.splits dest!: update_rows_ids)

text \<open>
  For the status \<open>queued\<close> the template of \<open>updateJobStatus\<close> ends the list of
  assignments with a comma, so SQLite rejects the statement whatever the values are.
\<close>

lemma update_queued_rejected:
  "updateJobStatus jobId Queued [(''retries'', a), (''error_message'', b)] db =
     Inl (SqliteError
       ''UPDATE encoding_jobs SET status = ?, retries = ?, error_message = ?,   WHERE id = ?'')"
  by (simp add: updateJobStatus_def setlist_ok_def set_clause_def updates_sql_def timestamp_sql_def
      blank_def is_space_def)

text \<open>
  What \<open>restartJob\<close> returns in each case: an unknown id and a job that is not
  \<open>failed\<close> are rejected as C7 says, but so is a \<open>failed\<close> job.
\<close>

lemma restartJob_cases:
  "restartJob jobId db =
     (case getJobById jobId db of
        None \<Rightarrow> Inl (JobNotFound jobId)
      | Some jm \<Rightarrow>
          if status (fst jm) \<noteq> Failed then Inl (JobNotFailed jobId)
          else Inl (SqliteError
            ''UPDATE encoding_jobs SET status = ?, retries = ?, error_message = ?,   WHERE id = ?''))"
  by (simp add: restartJob_def update_queued_rejected split: option.splits)

lemma restartJob_never_succeeds: "restartJob jobId db \<noteq> Inr db'"
  by (simp add: restartJob_cases split: option.splits)

section \<open>Facts about the dispatch engine\<close>

subsection \<open>No handler gets past its first status update\<close>

lemma startEncodingJob_catch_id: "startEncodingJob_catch jm e s = s"
  by (simp add: startEncodingJob_catch_def update_failed_rejected)

lemma fail_and_release_escapes:
  "fail_and_release jobId msg s =
     (Some (SqliteError ''UPDATE encoding_jobs SET status = ?, error_message = ?,   WHERE id = ?''), s)"
  by (simp add: fail_and_release_def update_failed_rejected)

lemma close_try_throws: "\<exists>e. close_try env p s = (Some e, s)"
  by (simp add: close_try_def update_replacing_rejected split: option.splits)

lemma closeHandler_escapes:
  "closeHandler env p s =
     (Some (SqliteError ''UPDATE encoding_jobs SET status = ?, error_message = ?,   WHERE id = ?''), s)"
proof -
  obtain e where "close_try env p s = (Some e, s)"
    using close_try_throws by blast
  then show ?thesis
    by (simp add: closeHandler_def fail_and_release_escapes)
qed

lemma errorHandler_escapes:
  "errorHandler msg p s =
     (Some (SqliteError ''UPDATE encoding_jobs SET status = ?, error_message = ?,   WHERE id = ?''), s)"
  by (simp add: errorHandler_def fail_and_release_escapes)

subsection \<open>The files are left alone\<close>

lemma begin_files: "files (startEncodingJob_begin jm s) = files s"
  by (simp add: startEncodingJob_begin_def Let_def startEncodingJob_catch_id split: sum.splits)

lemma fold_begin_files: "files (fold startEncodingJob_begin jms s) = files s"
  by (induction jms arbitrary: s) (simp_all add: begin_files)

lemma processEncodingQueue_files: "files (processEncodingQueue s) = files s"
  by (simp add: processEncodingQueue_def Let_def fold_begin_files)

lemma resume_files: "files (startEncodingJob_resume env jm s) = files s"
  by (simp add: startEncodingJob_resume_def Let_def startEncodingJob_catch_id
      startFFmpegEncoding_def split: sum.splits)

lemma step_files: "files (step e s) = files s"
proof (cases e)
  case (ProcClose k env)
  then show ?thesis by (simp add: closeHandler_escapes)
next
  case (ProcError k msg)
  then show ?thesis by (simp add: errorHandler_escapes)
next
  case (StartResume k env)
  then show ?thesis by (simp add: resume_files)
next
  case (Restart jobId)
  then show ?thesis by (simp split: sum.splits)
qed (simp_all add: processEncodingQueue_files pauseQueue_def resumeQueue_def setMaxParallelJobs_def)

lemma run_files: "files (run evs s) = files s"
  unfolding run_def by (induction evs arbitrary: s) (simp_all add: step_files)


subsection \<open>Job rows are kept\<close>

lemma createEncodingJob_keeps:
  "createEncodingJob i p db = Inr r \<Longrightarrow> \<exists>row. jobs_tbl (snd r) = jobs_tbl db @ [row]"
  by (auto simp: createEncodingJob_def Let_def split: option.splits)

lemma create_jobs_keeps:
  "set (map j_id (jobs_tbl db)) \<subseteq> set (map j_id (jobs_tbl (snd (create_jobs ms db))))"
proof (induction ms arbitrary: db)
  case Nil
  then show ?case by simp
next
  case (Cons m ms)
  show ?case
  proof (cases "createEncodingJob (m_id m) (file_size_bytes m div (1024 * 1024 * 100)) db")
    case (Inl e)
    then show ?thesis by simp
  next
    case (Inr r)
    from createEncodingJob_keeps [OF Inr] obtain row where "jobs_tbl (snd r) = jobs_tbl db @ [row]"
      by blast
    then have "set (map j_id (jobs_tbl db)) \<subseteq> set (map j_id (jobs_tbl (snd r)))"
      by auto
    also have "\<dots> \<subseteq> set (map j_id (jobs_tbl (snd (create_jobs ms (snd r)))))"
      by (rule Cons.IH)
    finally show ?thesis using Inr by simp
  qed
qed

lemma queueEncodingJobs_keeps:
  "set (map j_id (jobs_tbl db)) \<subseteq> set (map j_id (jobs_tbl (snd (queueEncodingJobs db))))"
proof -
  have eq: "snd (queueEncodingJobs db) = snd (create_jobs (getMediaNeedingEncoding 100 0 db) db)"
    by (cases "create_jobs (getMediaNeedingEncoding 100 0 db) db")
       (simp add: queueEncodingJobs_def Let_def split: option.splits)
  show ?thesis unfolding eq by (rule create_jobs_keeps)
qed

lemma begin_job_ids: "job_ids (startEncodingJob_begin jm s) = job_ids s"
  by (auto simp: startEncodingJob_begin_def Let_def startEncodingJob_catch_id job_ids_def
      split: sum.splits dest: updateJobStatus_frame(1))

lemma fold_begin_job_ids: "job_ids (fold startEncodingJob_begin jms s) = job_ids s"
  by (induction jms arbitrary: s) (simp_all add: begin_job_ids)

lemma processEncodingQueue_job_ids: "job_ids (processEncodingQueue s) = job_ids s"
  by (simp add: processEncodingQueue_def Let_def fold_begin_job_ids)

lemma resume_job_ids: "job_ids (startEncodingJob_resume env jm s) = job_ids s"
  by (auto simp: startEncodingJob_resume_def Let_def startEncodingJob_catch_id
      startFFmpegEncoding_def job_ids_def split: sum.splits dest: updateJobStatus_frame(1))

lemma step_job_ids:
  assumes "\<not> is_scan e"
  shows "set (job_ids s) \<subseteq> set (job_ids (step e s))"
proof (cases e)
  case (ScanFile mi)
  with assms show ?thesis by (simp add: is_scan_def)
next
  case Admit
  then show ?thesis using queueEncodingJobs_keeps [of "store s"] by (simp add: job_ids_def)
next
  case Poll
  then show ?thesis by (simp add: processEncodingQueue_job_ids)
next
  case (StartResume k env)
  then show ?thesis by (simp add: resume_job_ids) (simp add: job_ids_def)
next
  case (ProcClose k env)
  then show ?thesis by (simp add: closeHandler_escapes) (simp add: job_ids_def)
next
  case (ProcError k msg)
  then show ?thesis by (simp add: errorHandler_escapes)
next
  case (Restart jobId)
  then show ?thesis by (simp add: restartJob_never_succeeds split: sum.splits)
next
  case Pause
  then show ?thesis by (simp add: pauseQueue_def job_ids_def)
next
  case Resume
  then show ?thesis by (simp add: resumeQueue_def processEncodingQueue_job_ids) (simp add: job_ids_def)
next
  case (SetMax n)
  then show ?thesis by (simp add: setMaxParallelJobs_def job_ids_def)
next
  case Tick
  then show ?thesis by (simp add: job_ids_def)
qed

lemma run_job_ids:
  "list_all (\<lambda>e. \<not> is_scan e) evs \<Longrightarrow> set (job_ids s) \<subseteq> set (job_ids (run evs s))"
  unfolding run_def
proof (induction evs arbitrary: s)
  case Nil
  then show ?case by simp
next
  case (Cons e evs)
  from Cons.prems have "set (job_ids s) \<subseteq> set (job_ids (step e s))"
    by (simp add: step_job_ids)
  also have "\<dots> \<subseteq> set (job_ids (fold step evs (step e s)))"
    using Cons by simp
  finally show ?case by simp
qed

subsection \<open>Evaluating sample runs\<close>

lemmas engine_defs = run_def processEncodingQueue_def startEncodingJob_begin_def
  startEncodingJob_resume_def startFFmpegEncoding_def init_system_def start_ok_def
  getJobsByStatus_def joined_def sql_limit_def remove_nth_def

lemma sample_before_close:
  "activeJobs (run [Poll, StartResume 0 start_ok] (init_system (sample_db Queued))) = 1
   \<and> activeJobsMap (run [Poll, StartResume 0 start_ok] (init_system (sample_db Queued))) = {1}
   \<and> length (running (run [Poll, StartResume 0 start_ok] (init_system (sample_db Queued)))) = 1
   \<and> map status (jobs_tbl (store (run [Poll, StartResume 0 start_ok] (init_system (sample_db Queued))))) = [Processing]"
  by (simp add: engine_defs sql_defs updated_row_def set_timestamp_def set_column_def Let_def sample_defs)

section \<open>C1: the source file of a job\<close>
















section \<open>C2: admission\<close>

lemma createEncodingJob_found:
  assumes "m \<in> set (media_tbl db)"
  shows "\<exists>r row. createEncodingJob (m_id m) p db = Inr r \<and> media_tbl (snd r) = media_tbl db
           \<and> jobs_tbl (snd r) = jobs_tbl db @ [row] \<and> media_id row = m_id m \<and> status row = Queued"
proof -
  from assms have "find (\<lambda>x. m_id x = m_id m) (media_tbl db) \<noteq> None"
    by (auto simp: find_None_iff)
  then obtain m' where "find_media (m_id m) db = Some m'"
    by (auto simp: find_media_def)
  then show ?thesis
    by (simp add: createEncodingJob_def Let_def)
qed

lemma create_jobs_appends:
  "set ms \<subseteq> set (media_tbl db) \<Longrightarrow>
     fst (create_jobs ms db) = None \<and> media_tbl (snd (create_jobs ms db)) = media_tbl db \<and>
     (\<exists>new. jobs_tbl (snd (create_jobs ms db)) = jobs_tbl db @ new \<and>
            map media_id new = map m_id ms \<and> list_all (\<lambda>j. status j = Queued) new)"
proof (induction ms arbitrary: db)
  case Nil
  then show ?case by simp
next
  case (Cons m ms)
  from Cons.prems have "m \<in> set (media_tbl db)" by simp
  from createEncodingJob_found [OF this, of "file_size_bytes m div (1024 * 1024 * 100)"]
  obtain r row where r: "createEncodingJob (m_id m) (file_size_bytes m div (1024 * 1024 * 100)) db = Inr r"
    "media_tbl (snd r) = media_tbl db" "jobs_tbl (snd r) = jobs_tbl db @ [row]"
    "media_id row = m_id m" "status row = Queued"
    by blast
  from Cons.prems r(2) have "set ms \<subseteq> set (media_tbl (snd r))" by simp
  from Cons.IH [OF this] obtain new where new:
    "fst (create_jobs ms (snd r)) = None" "media_tbl (snd (create_jobs ms (snd r))) = media_tbl (snd r)"
    "jobs_tbl (snd (create_jobs ms (snd r))) = jobs_tbl (snd r) @ new"
    "map media_id new = map m_id ms" "list_all (\<lambda>j. status j = Queued) new"
    by blast
  have step: "create_jobs (m # ms) db = create_jobs ms (snd r)"
    using r(1) by simp
  have "jobs_tbl (snd (create_jobs (m # ms) db)) = jobs_tbl db @ (row # new)"
    using step new(3) r(3) by simp
  moreover have "map media_id (row # new) = map m_id (m # ms)"
    using r(4) new(4) by simp
  moreover have "list_all (\<lambda>j. status j = Queued) (row # new)"
    using r(5) new(5) by simp
  ultimately show ?case
    using step new(1,2) r(2) by metis
qed

lemma count_distinct: "distinct xs \<Longrightarrow> length (filter (\<lambda>i. i = a) xs) = (if a \<in> set xs then 1 else 0)"
  by (induction xs) auto

lemma set_sql_limit: "set (sql_limit n xs) \<subseteq> set xs"
  by (simp add: sql_limit_def set_take_subset)

lemma set_sql_offset: "set (sql_offset n xs) \<subseteq> set xs"
  by (simp add: sql_offset_def set_drop_subset)

lemma selected_subset: "set (getMediaNeedingEncoding l off db) \<subseteq> set (media_tbl db)"
proof -
  have "set (getMediaNeedingEncoding l off db)
          \<subseteq> set (sort_key (\<lambda>m. - file_size_bytes m) (filter needs_encoding (media_tbl db)))"
    unfolding getMediaNeedingEncoding_def
    by (rule order_trans [OF set_sql_limit set_sql_offset])
  then show ?thesis by auto
qed

lemma selected_distinct:
  assumes "distinct (map m_id (media_tbl db))"
  shows "distinct (map m_id (getMediaNeedingEncoding l off db))"
proof -
  from assms have d: "distinct (media_tbl db)" and inj: "inj_on m_id (set (media_tbl db))"
    by (simp_all add: distinct_map)
  have "distinct (getMediaNeedingEncoding l off db)"
    using d by (simp add: getMediaNeedingEncoding_def sql_limit_def sql_offset_def)
  moreover have "inj_on m_id (set (getMediaNeedingEncoding l off db))"
    using inj selected_subset by (rule inj_on_subset)
  ultimately show ?thesis by (simp add: distinct_map)
qed

lemma new_jobs_count:
  assumes "map media_id new = ids" "list_all (\<lambda>j. status j = Queued) new"
  shows "length (filter (\<lambda>j. media_id j = a \<and> is_nonterminal (status j)) new)
         = length (filter (\<lambda>i. i = a) ids)"
  using assms
proof (induction new arbitrary: ids)
  case Nil
  then show ?case by simp
next
  case (Cons j new)
  then show ?case by (auto simp: is_nonterminal_def)
qed

text \<open>
  C2, amended: \<open>queueEncodingJobs\<close> does not look at the jobs that exist.  A pass
  returns the number of media rows it selected (at most 100 rows with
  \<open>needs_encoding = 1\<close>, largest first) and creates exactly one \<open>queued\<close> job for
  each selected media id and none for any other, so the number of non-terminal jobs of
  a selected media id grows by one with every pass.
\<close>

theorem C2_admission_adds_one_job_per_selected_media:
  assumes "distinct (map m_id (media_tbl db))"
  shows "fst (queueEncodingJobs db) = Inr (length (getMediaNeedingEncoding 100 0 db))
       \<and> length (nonterminal_jobs_of mediaId (snd (queueEncodingJobs db))) =
           length (nonterminal_jobs_of mediaId db)
           + (if mediaId \<in> set (map m_id (getMediaNeedingEncoding 100 0 db)) then 1 else 0)"
proof -
  let ?ms = "getMediaNeedingEncoding 100 0 db"
  from create_jobs_appends [OF selected_subset, of 100 0 db] obtain new where new:
    "fst (create_jobs ?ms db) = None"
    "jobs_tbl (snd (create_jobs ?ms db)) = jobs_tbl db @ new"
    "map media_id new = map m_id ?ms" "list_all (\<lambda>j. status j = Queued) new"
    by blast
  have q: "queueEncodingJobs db = (Inr (length ?ms), snd (create_jobs ?ms db))"
    using new(1) by (cases "create_jobs ?ms db") (simp add: queueEncodingJobs_def Let_def)
  have "length (filter (\<lambda>j. media_id j = mediaId \<and> is_nonterminal (status j)) new)
        = (if mediaId \<in> set (map m_id ?ms) then 1 else 0)"
    using new_jobs_count [OF new(3,4)] count_distinct [OF selected_distinct [OF assms]]
    by simp
  then show ?thesis
    using q new(2) by (simp add: nonterminal_jobs_of_def)
qed

lemmas adm_defs = queueEncodingJobs_def getMediaNeedingEncoding_def sql_limit_def sql_offset_def
  createEncodingJob_def find_media_def nonterminal_jobs_of_def is_nonterminal_def

text \<open>
  C2, as stated, fails: two admission passes over one media row that needs encoding
  leave two \<open>queued\<close> jobs for its media id.
\<close>

theorem C2_double_admission:
  "length (nonterminal_jobs_of 1
     (snd (queueEncodingJobs (snd (queueEncodingJobs (snd (addMedia (sample_info ''h264'') empty_db))))))) = 2"
  by (simp add: adm_defs addMedia_def Let_def fresh_id_def codec_defs sample_defs)

text \<open>
  C2, amended, on the sample database: media 1 needs encoding and has one queued job; an
  admission pass gives it a second one.
\<close>

theorem C2_admission_adds_one_job_per_selected_media_witness:
  "distinct (map m_id (media_tbl (sample_db Queued)))
   \<and> length (nonterminal_jobs_of 1 (sample_db Queued)) = 1
   \<and> length (nonterminal_jobs_of 1 (snd (queueEncodingJobs (sample_db Queued)))) = 2"
proof -
  have d: "distinct (map m_id (media_tbl (sample_db Queued)))"
    by (simp add: sample_defs)
  have s: "map m_id (getMediaNeedingEncoding 100 0 (sample_db Queued)) = [1]"
    by (simp add: adm_defs sample_defs)
  have n: "length (nonterminal_jobs_of 1 (sample_db Queued)) = 1"
    by (simp add: adm_defs sample_defs)
  show ?thesis
    using C2_admission_adds_one_job_per_selected_media [OF d, of 1] d n by (simp add: s)
qed

section \<open>C3: a polling pass and the concurrency limit\<close>

lemma update_rows_nodata: "\<exists>js'. update_rows jobId st [] t js = Some js'"
  by (induction js) (auto simp: updated_row_def)

lemma update_processing_ok: "\<exists>db'. updateJobStatus jobId Processing [] db = Inr db'"
proof -
  obtain js' where "update_rows jobId Processing [] (clock db) (jobs_tbl db) = Some js'"
    using update_rows_nodata by blast
  then show ?thesis
    by (simp add: sql_defs)
qed

lemma begin_starting: "starting (startEncodingJob_begin jm s) = starting s @ [jm]"
proof -
  obtain db' where "updateJobStatus (j_id (fst jm)) Processing [] (store s) = Inr db'"
    using update_processing_ok by blast
  then show ?thesis by (simp add: startEncodingJob_begin_def Let_def)
qed

lemma begin_activeJobs: "activeJobs (startEncodingJob_begin jm s) = activeJobs s + 1"
proof -
  obtain db' where "updateJobStatus (j_id (fst jm)) Processing [] (store s) = Inr db'"
    using update_processing_ok by blast
  then show ?thesis by (simp add: startEncodingJob_begin_def Let_def)
qed

lemma fold_begin_starting: "starting (fold startEncodingJob_begin jms s) = starting s @ jms"
  by (induction jms arbitrary: s) (simp_all add: begin_starting)

lemma fold_begin_activeJobs:
  "activeJobs (fold startEncodingJob_begin jms s) = activeJobs s + int (length jms)"
  by (induction jms arbitrary: s) (simp_all add: begin_activeJobs)

lemma started_by_pass_eq:
  "started_by_pass s =
     (if isQueuePaused s \<or> maxParallelJobs s - activeJobs s \<le> 0 then []
      else getJobsByStatus Queued (maxParallelJobs s - activeJobs s) (store s))"
  by (simp add: started_by_pass_def processEncodingQueue_def Let_def fold_begin_starting)

lemma pass_activeJobs:
  "activeJobs (processEncodingQueue s) = activeJobs s + int (length (started_by_pass s))"
  by (simp add: started_by_pass_eq) (simp add: processEncodingQueue_def Let_def fold_begin_activeJobs)

lemma length_getJobsByStatus: "0 \<le> n \<Longrightarrow> int (length (getJobsByStatus st n db)) \<le> n"
  by (simp add: getJobsByStatus_def sql_limit_def)

text \<open>
  C3: a polling pass starts at most \<open>maxParallelJobs - activeJobs\<close> jobs, and none
  when the queue is paused or when \<open>activeJobs \<ge> maxParallelJobs\<close> (the pass then
  changes nothing); \<open>activeJobs\<close> grows by the number of jobs started.
  \<open>setMaxParallelJobs\<close> stores \<open>max 1 n\<close> and touches nothing else: the running
  processes, the suspended starts, \<open>activeJobs\<close>, the map of active jobs and the
  database are as before, so lowering the limit interrupts no job.
\<close>

theorem C3_pass_within_free_slots:
  "int (length (started_by_pass s)) \<le> max 0 (maxParallelJobs s - activeJobs s)
   \<and> (isQueuePaused s \<or> maxParallelJobs s \<le> activeJobs s \<longrightarrow>
        started_by_pass s = [] \<and> processEncodingQueue s = s)
   \<and> activeJobs (processEncodingQueue s) = activeJobs s + int (length (started_by_pass s))
   \<and> maxParallelJobs (setMaxParallelJobs n s) = max 1 n
   \<and> setMaxParallelJobs n s = s\<lparr>maxParallelJobs := max 1 n\<rparr>
   \<and> running (setMaxParallelJobs n s) = running s
   \<and> starting (setMaxParallelJobs n s) = starting s
   \<and> activeJobs (setMaxParallelJobs n s) = activeJobs s
   \<and> activeJobsMap (setMaxParallelJobs n s) = activeJobsMap s
   \<and> store (setMaxParallelJobs n s) = store s"
proof -
  have a: "int (length (started_by_pass s)) \<le> max 0 (maxParallelJobs s - activeJobs s)"
    using length_getJobsByStatus [of "maxParallelJobs s - activeJobs s" Queued "store s"]
    by (simp add: started_by_pass_eq)
  have b: "isQueuePaused s \<or> maxParallelJobs s \<le> activeJobs s \<longrightarrow>
        started_by_pass s = [] \<and> processEncodingQueue s = s"
    by (auto simp: started_by_pass_eq processEncodingQueue_def Let_def)
  show ?thesis
    using a b pass_activeJobs [of s] by (simp add: setMaxParallelJobs_def)
qed

text \<open>
  C3 on the sample state: with the default limit 2 and one queued job the pass starts
  one job, none when paused, and a limit of 0 is stored as 1.
\<close>

theorem C3_pass_within_free_slots_witness:
  "length (started_by_pass (init_system (sample_db Queued))) = 1
   \<and> started_by_pass (pauseQueue (init_system (sample_db Queued))) = []
   \<and> maxParallelJobs (setMaxParallelJobs 0 (init_system (sample_db Queued))) = 1"
proof -
  have p: "isQueuePaused (pauseQueue (init_system (sample_db Queued)))"
    by (simp add: pauseQueue_def)
  have one: "length (started_by_pass (init_system (sample_db Queued))) = 1"
    by (simp add: started_by_pass_eq engine_defs sample_defs)
  show ?thesis
    using C3_pass_within_free_slots [of "pauseQueue (init_system (sample_db Queued))" 0] p one
          C3_pass_within_free_slots [of "init_system (sample_db Queued)" 0]
    by simp
qed

section \<open>C4: upserting one file path twice\<close>

text \<open>
  C4, as stated, fails: the second \<open>addMedia\<close> for a path does not update the row the
  first one created.  \<open>INSERT OR REPLACE\<close> deletes that row and inserts another one
  under a new id, so the id the first call returned names no row afterwards.
\<close>

theorem C4_second_upsert_is_not_in_place:
  "fst (addMedia (sample_info ''h264'') empty_db)
     \<notin> set (map m_id (media_tbl
           (snd (addMedia (sample_info ''h264'') (snd (addMedia (sample_info ''h264'') empty_db))))))"
  by (simp add: addMedia_def Let_def fresh_id_def sample_defs)

text \<open>
  C4, amended: after two upserts of one file path, from any database, exactly one
  media row has that path.  It is the row the second call inserted: it carries the id
  the second call returned, which is larger than the id of the first call, the second
  call's codec tag, and \<open>encoded_previously = false\<close>; the id of the first call
  names no row any more.
\<close>

theorem C4_upsert_twice_replaces:
  assumes same: "mi_file_path mi2 = mi_file_path mi1"
  shows "length (rows_of_path (mi_file_path mi1) (snd (addMedia mi2 (snd (addMedia mi1 db))))) = 1
       \<and> map m_id (rows_of_path (mi_file_path mi1) (snd (addMedia mi2 (snd (addMedia mi1 db)))))
           = [fst (addMedia mi2 (snd (addMedia mi1 db)))]
       \<and> fst (addMedia mi1 db) < fst (addMedia mi2 (snd (addMedia mi1 db)))
       \<and> fst (addMedia mi1 db) \<notin> set (map m_id (media_tbl (snd (addMedia mi2 (snd (addMedia mi1 db))))))
       \<and> map encoding_type (rows_of_path (mi_file_path mi1) (snd (addMedia mi2 (snd (addMedia mi1 db)))))
           = [mi_encoding_type mi2]
       \<and> map encoded_previously (rows_of_path (mi_file_path mi1) (snd (addMedia mi2 (snd (addMedia mi1 db)))))
           = [False]"
proof -
  let ?r1 = "addMedia mi1 db"
  let ?r2 = "addMedia mi2 (snd ?r1)"
  have rows: "rows_of_path (mi_file_path mi1) (snd ?r2) =
     [\<lparr>m_id = fst ?r2, title = mi_title mi2,
       episode_name = or_null (mi_episode_name mi2), directory = mi_directory mi2,
       file_path = mi_file_path mi2, file_size_bytes = mi_file_size_bytes mi2,
       encoding_type = mi_encoding_type mi2, media_type = mi_media_type mi2,
       last_updated = clock (snd ?r1), needs_encoding = needsEncoding_of (mi_encoding_type mi2),
       encoded_previously = False, m_created_at = clock (snd ?r1)\<rparr>]"
    using addMedia_rows_of_path [of mi2 "snd ?r1"] same by simp
  have lt: "fst ?r1 < fst ?r2"
    using fresh_id_gt_seq [of "media_seq (snd ?r1)" "map m_id (media_tbl (snd ?r1))"]
    by (simp add: addMedia_fst [of mi2] addMedia_seq)
  have gone: "fst ?r1 \<notin> set (map m_id (media_tbl (snd ?r2)))"
  proof
    assume "fst ?r1 \<in> set (map m_id (media_tbl (snd ?r2)))"
    with addMedia_ids [of mi2 "snd ?r1"] lt
    obtain m where m: "m \<in> set (media_tbl (snd ?r1))" "file_path m \<noteq> mi_file_path mi2"
      "m_id m = fst ?r1"
      by auto
    from m(1,2) same have "m \<in> set (media_tbl db)"
      by (auto simp: addMedia_def Let_def)
    then have "m_id m < fst ?r1"
      using fresh_id_gt_member [of "m_id m" "map m_id (media_tbl db)" "media_seq db"]
      by (simp add: addMedia_fst)
    with m(3) show False by simp
  qed
  from rows lt gone show ?thesis by simp
qed

text \<open>
  C4, amended, on the sample file: upserted twice into the empty database, it is stored
  once, under the id 2 of the second call; the first call had returned 1.
\<close>

theorem C4_upsert_twice_replaces_witness:
  "length (rows_of_path [''lib'', ''film.mkv'']
      (snd (addMedia (sample_info ''hevc'') (snd (addMedia (sample_info ''h264'') empty_db))))) = 1
   \<and> fst (addMedia (sample_info ''h264'') empty_db) = 1
   \<and> fst (addMedia (sample_info ''hevc'') (snd (addMedia (sample_info ''h264'') empty_db))) = 2
   \<and> map m_id (rows_of_path [''lib'', ''film.mkv'']
      (snd (addMedia (sample_info ''hevc'') (snd (addMedia (sample_info ''h264'') empty_db))))) = [2]"
proof -
  have same: "mi_file_path (sample_info ''hevc'') = mi_file_path (sample_info ''h264'')"
    by (simp add: sample_info_def)
  have p: "mi_file_path (sample_info ''h264'') = [''lib'', ''film.mkv'']"
    by (simp add: sample_info_def)
  have i1: "fst (addMedia (sample_info ''h264'') empty_db) = 1"
    by (simp add: addMedia_def Let_def fresh_id_def empty_db_def)
  have i2: "fst (addMedia (sample_info ''hevc'') (snd (addMedia (sample_info ''h264'') empty_db))) = 2"
    by (simp add: addMedia_def Let_def fresh_id_def empty_db_def)
  show ?thesis
    using C4_upsert_twice_replaces [OF same, of empty_db] i1 i2 by (simp add: p)
qed

section \<open>C5: job rows are kept\<close>

text \<open>
  C5, amended: job rows are never deleted by admission, dispatch or retry.  Every step
  of the system keeps the id of every job row, except an upsert of the file path under
  which the job's media row is stored: that upsert replaces the media row and deletes
  the job with it (\<open>ON DELETE CASCADE\<close>).  A sequence of steps without upserts keeps
  every job id.
\<close>

theorem C5_jobs_kept_except_cascade:
  assumes "j \<in> set (jobs_tbl (store s))"
  shows "(\<not> cascaded e s j \<longrightarrow> j_id j \<in> set (job_ids (step e s)))
       \<and> (cascaded e s j \<longrightarrow> j \<notin> set (jobs_tbl (store (step e s))))
       \<and> (list_all (\<lambda>e. \<not> is_scan e) evs \<longrightarrow> j_id j \<in> set (job_ids (run evs s)))"
proof -
  from assms have mem: "j_id j \<in> set (job_ids s)"
    by (simp add: job_ids_def)
  have a: "\<not> cascaded e s j \<longrightarrow> j_id j \<in> set (job_ids (step e s))"
  proof (cases "is_scan e")
    case False
    from step_job_ids [OF this] mem show ?thesis by blast
  next
    case True
    then obtain mi where e: "e = ScanFile mi"
      by (cases e) (simp_all add: is_scan_def)
    show ?thesis
      using assms by (auto simp: e cascaded_def rows_of_path_def addMedia_def Let_def job_ids_def)
  qed
  have b: "cascaded e s j \<longrightarrow> j \<notin> set (jobs_tbl (store (step e s)))"
    by (cases e) (auto simp: cascaded_def rows_of_path_def addMedia_def Let_def)
  have c: "list_all (\<lambda>e. \<not> is_scan e) evs \<longrightarrow> j_id j \<in> set (job_ids (run evs s))"
    using run_job_ids [of evs s] mem by blast
  from a b c show ?thesis by blast
qed

text \<open>
  C5, as stated, fails: a file is upserted and admitted, which creates job 1; the same
  file is upserted again, and no job row is left.
\<close>

theorem C5_reupsert_deletes_jobs:
  "job_ids (run [ScanFile (sample_info ''h264''), Admit] (init_system empty_db)) = [1]
   \<and> job_ids (run [ScanFile (sample_info ''h264''), Admit, ScanFile (sample_info ''h264'')]
        (init_system empty_db)) = []"
  by (simp add: run_def job_ids_def init_system_def adm_defs addMedia_def Let_def fresh_id_def
      codec_defs sample_defs)

text \<open>
  C5, amended, on the sample state: job 1 survives a polling pass and a run of
  admission, dispatch and retry, and is deleted by an upsert of its file.
\<close>

theorem C5_jobs_kept_except_cascade_witness:
  "sample_job Queued \<in> set (jobs_tbl (store (init_system (sample_db Queued))))
   \<and> 1 \<in> set (job_ids (step Poll (init_system (sample_db Queued))))
   \<and> sample_job Queued \<notin> set (jobs_tbl (store (step (ScanFile (sample_info ''h264'')) (init_system (sample_db Queued)))))
   \<and> 1 \<in> set (job_ids (run [Admit, Poll, Restart 1] (init_system (sample_db Queued))))"
proof -
  have m: "sample_job Queued \<in> set (jobs_tbl (store (init_system (sample_db Queued))))"
    by (simp add: init_system_def sample_defs)
  have n: "\<not> cascaded Poll (init_system (sample_db Queued)) (sample_job Queued)"
    by (simp add: cascaded_def)
  have c: "cascaded (ScanFile (sample_info ''h264'')) (init_system (sample_db Queued)) (sample_job Queued)"
    by (simp add: cascaded_def rows_of_path_def init_system_def sample_defs)
  have l: "list_all (\<lambda>e. \<not> is_scan e) [Admit, Poll, Restart 1]"
    by (simp add: is_scan_def)
  have i: "j_id (sample_job Queued) = 1"
    by (simp add: sample_defs)
  show ?thesis
    using C5_jobs_kept_except_cascade [OF m, of Poll "[Admit, Poll, Restart 1]"]
          C5_jobs_kept_except_cascade [OF m, of "ScanFile (sample_info ''h264'')" "[]"] m n c l i
    by simp
qed

section \<open>C6: the \<open>needs_encoding\<close> flag and the codec tag\<close>

lemma flag_consistent_needsEncoding:
  "flag_consistent m = (needs_encoding m = needsEncoding_of (encoding_type m))"
  by (auto simp: flag_consistent_def needsEncoding_of_def)

lemma mark_rows:
  "list_all (\<lambda>m. \<not> needs_encoding m \<and> encoding_type m = c)
     (filter (\<lambda>m. m_id m = i)
        (map (\<lambda>m. if m_id m = i
                   then m\<lparr>needs_encoding := False, encoded_previously := True,
                          encoding_type := c, file_size_bytes := n, last_updated := t\<rparr>
                   else m) xs))"
  by (induction xs) simp_all

text \<open>
  C6, as stated, fails for the write \<open>markMediaAsEncoded\<close>: it stores the codec tag
  it is given (\<open>replaceOriginalFile\<close> passes \<open>unknown\<close> when the probe finds no video
  stream) and sets \<open>needs_encoding = 0\<close> without looking at the tag.
\<close>

theorem C6_mark_encoded_breaks_flag:
  "\<not> list_all flag_consistent
        (media_tbl (markMediaAsEncoded 1 ''unknown'' 10 (snd (addMedia (sample_info ''h264'') empty_db))))"
  by (simp add: markMediaAsEncoded_def addMedia_def Let_def fresh_id_def flag_consistent_def
      codec_defs sample_defs)

text \<open>
  C6, amended: \<open>addMedia\<close> recomputes the flag from the codec tag on every upsert:
  the row it writes has \<open>needs_encoding\<close> false exactly when the lower-cased tag is
  \<open>hevc\<close>, \<open>h265\<close> or \<open>av1\<close>, and if every row agreed with its tag before the
  upsert, every row does afterwards.  \<open>markMediaAsEncoded\<close> does not recompute: the
  row it updates gets the new codec tag and \<open>needs_encoding\<close> false, whatever the
  tag is.
\<close>

theorem C6_flag_recomputed_on_upsert:
  "(list_all flag_consistent (media_tbl db) \<longrightarrow>
      list_all flag_consistent (media_tbl (snd (addMedia mi db))))
   \<and> list_all flag_consistent (rows_of_path (mi_file_path mi) (snd (addMedia mi db)))
   \<and> map needs_encoding (rows_of_path (mi_file_path mi) (snd (addMedia mi db)))
        = [toLowerCase (mi_encoding_type mi) \<notin> set accepted_codecs]
   \<and> list_all (\<lambda>m. \<not> needs_encoding m \<and> encoding_type m = newEncodingType)
        (filter (\<lambda>m. m_id m = mediaId)
           (media_tbl (markMediaAsEncoded mediaId newEncodingType newSizeBytes db)))"
proof -
  have a: "list_all flag_consistent (media_tbl db) \<longrightarrow>
      list_all flag_consistent (media_tbl (snd (addMedia mi db)))"
    by (auto simp: addMedia_def Let_def list_all_iff flag_consistent_needsEncoding)
  have b: "list_all flag_consistent (rows_of_path (mi_file_path mi) (snd (addMedia mi db)))"
    by (simp add: addMedia_rows_of_path flag_consistent_needsEncoding)
  have c: "map needs_encoding (rows_of_path (mi_file_path mi) (snd (addMedia mi db)))
        = [toLowerCase (mi_encoding_type mi) \<notin> set accepted_codecs]"
    by (simp add: addMedia_rows_of_path needsEncoding_of_def)
  have d: "list_all (\<lambda>m. \<not> needs_encoding m \<and> encoding_type m = newEncodingType)
        (filter (\<lambda>m. m_id m = mediaId)
           (media_tbl (markMediaAsEncoded mediaId newEncodingType newSizeBytes db)))"
    by (simp add: markMediaAsEncoded_def mark_rows)
  from a b c d show ?thesis by blast
qed

text \<open>
  C6, amended, on the sample file with the codec tag \<open>HEVC\<close>: the upsert stores it
  with \<open>needs_encoding\<close> false.
\<close>

theorem C6_flag_recomputed_on_upsert_witness:
  "list_all flag_consistent (media_tbl empty_db)
   \<and> list_all flag_consistent (media_tbl (snd (addMedia (sample_info ''HEVC'') empty_db)))
   \<and> map needs_encoding (media_tbl (snd (addMedia (sample_info ''HEVC'') empty_db))) = [False]"
proof -
  have e: "list_all flag_consistent (media_tbl empty_db)"
    by (simp add: empty_db_def)
  have r: "rows_of_path (mi_file_path (sample_info ''HEVC''))
             (snd (addMedia (sample_info ''HEVC'') empty_db))
      = media_tbl (snd (addMedia (sample_info ''HEVC'') empty_db))"
    by (simp add: rows_of_path_def addMedia_def Let_def sample_defs)
  have l: "(toLowerCase (mi_encoding_type (sample_info ''HEVC'')) \<notin> set accepted_codecs) = False"
    by (simp add: codec_defs sample_defs)
  show ?thesis
    using C6_flag_recomputed_on_upsert [of empty_db "sample_info ''HEVC''" "''x''" 0 0] e
    by (simp add: r l)
qed

section \<open>C7: \<open>restartJob\<close>\<close>

text \<open>
  C7 at a failed job: \<open>restartJob\<close> on the \<open>failed\<close> job 1 throws the SQLite syntax
  error, so the job keeps its status, its error text and its retry count.  C7 says the
  call sets the status to \<open>queued\<close>, clears the error and increments the retries.
\<close>

theorem C7_restartJob_on_failed_job_throws:
  "restartJob 1 (sample_db Failed) =
     Inl (SqliteError
       ''UPDATE encoding_jobs SET status = ?, retries = ?, error_message = ?,   WHERE id = ?'')"
  by (simp add: restartJob_def getJobById_def joined_def update_queued_rejected sample_defs)

section \<open>C8: the immediate evaluation of a schedule rule\<close>

text \<open>The comparison of the program is the lexicographic order.\<close>

lemma str_le_lex: "str_le a b = lex_le a b"
proof (induction a b rule: str_le.induct)
  case (1 ys)
  then show ?case by (cases ys) (auto simp: lex_le_def)
next
  case (2 x xs)
  then show ?case by (simp add: lex_le_def)
next
  case (3 x xs y ys)
  then show ?case by (auto simp: lex_le_def)
qed

text \<open>A polling pass changes neither the pause flag nor the limit.\<close>

lemma begin_flags:
  "isQueuePaused (startEncodingJob_begin jm s) = isQueuePaused s
   \<and> maxParallelJobs (startEncodingJob_begin jm s) = maxParallelJobs s"
  by (simp add: startEncodingJob_begin_def Let_def startEncodingJob_catch_id split: sum.splits)

lemma fold_begin_flags:
  "isQueuePaused (fold startEncodingJob_begin jms s) = isQueuePaused s
   \<and> maxParallelJobs (fold startEncodingJob_begin jms s) = maxParallelJobs s"
  by (induction jms arbitrary: s) (simp_all add: begin_flags)

lemma processEncodingQueue_flags:
  "isQueuePaused (processEncodingQueue s) = isQueuePaused s
   \<and> maxParallelJobs (processEncodingQueue s) = maxParallelJobs s"
  by (simp add: processEncodingQueue_def Let_def fold_begin_flags)

text \<open>The time of day of the program is the zero-padded \<open>HH:MM\<close>.\<close>

lemma toString_digit: "n < 10 \<Longrightarrow> toString n = [''0123456789'' ! n]"
  by (simp add: toString.simps digit_char_def)

lemma padStart_two_digits:
  assumes "n < 100"
  shows "padStart 2 CHR ''0'' (toString n) = two_digits n"
proof (cases "n < 10")
  case True
  then show ?thesis
    by (simp add: toString_digit padStart_def two_digits_def)
next
  case False
  with assms have "n div 10 < 10" by simp
  with False show ?thesis
    by (simp add: toString.simps [of n] toString_digit digit_char_def padStart_def two_digits_def)
qed

lemma currentTime_clock_text:
  "hours now < 24 \<Longrightarrow> minutes now < 60 \<Longrightarrow> currentTime now = clock_text now"
  by (simp add: currentTime_def clock_text_def padStart_two_digits)

text \<open>The weekdays the program reads are the weekdays of the rule.\<close>

lemma weekday_cases: "d < 7 \<Longrightarrow> d = 0 \<or> d = 1 \<or> d = 2 \<or> d = 3 \<or> d = 4 \<or> d = 5 \<or> d = (6::nat)"
  by arith

lemma weekday_text_no_comma: "d < 7 \<Longrightarrow> CHR '','' \<notin> set (weekday_text d)"
  by (drule weekday_cases) (auto simp: weekday_text_def)

lemma split_on_first: "c \<notin> set w \<Longrightarrow> split_on c (w @ c # rest) = w # split_on c rest"
  by (induction w) auto

lemma split_on_no_sep: "c \<notin> set ys \<Longrightarrow> split_on c ys = [ys]"
  by (induction ys) auto

lemma split_weekdays_text:
  "ws \<noteq> [] \<Longrightarrow> list_all (\<lambda>d. d < 7) ws \<Longrightarrow>
     split_on CHR '','' (weekdays_text ws) = map weekday_text ws"
proof (induction ws rule: weekdays_text.induct)
  case 1
  then show ?case by simp
next
  case (2 d)
  then show ?case by (simp add: split_on_no_sep weekday_text_no_comma)
next
  case (3 d e ds)
  then show ?case by (simp add: split_on_first weekday_text_no_comma)
qed

lemmas number_defs = js_Number_def js_trim_def js_whitespace_def radix_literal_def signed_decimal_def
  unsigned_decimal_def signed_integer_def is_decimal_digit_def digit_of_def lower_char_def
  exponent_part_def pow10_def Let_def

lemma Number_weekday_text: "d < 7 \<Longrightarrow> js_Number (weekday_text d) = Finite (of_nat d)"
  by (drule weekday_cases) (auto simp: weekday_text_def number_defs)

lemma floor_log2_small:
  "floor_log2 (Suc 0) = 0" "floor_log2 2 = 1" "floor_log2 3 = 1" "floor_log2 4 = 2"
  "floor_log2 5 = 2" "floor_log2 6 = 2"
  by (simp_all add: floor_log2.simps)

lemma rounds_to_weekday:
  assumes "a < 7" "b < 7"
  shows "rounds_to (of_nat a) b = (a = b)"
  using weekday_cases [OF assms(1)] weekday_cases [OF assms(2)]
  by (auto simp: rounds_to_def Let_def floor_log2_small)

lemma includes_weekday:
  "list_all (\<lambda>d. d < 7) ws \<Longrightarrow> d < 7 \<Longrightarrow>
     includes_day (map js_Number (map weekday_text ws)) d = (d \<in> set ws)"
  by (induction ws) (auto simp: includes_day_def Number_weekday_text rounds_to_weekday)

text \<open>
  C8, as stated, fails in two ways.  A rule for every weekday and the whole day with
  the configured limit 0, evaluated on a Wednesday at 09:05, signals \<open>resume\<close> and
  calls \<open>setMaxParallelJobs(0)\<close>, and the limit of the engine is 1 afterwards, not
  the configured value.  A rule whose list of weekdays is the empty text, evaluated
  on a Sunday, signals \<open>resume\<close>: splitting the empty text gives one empty text,
  and \<open>Number\<close> of that is 0, the number of Sunday.
\<close>

theorem C8_limit_zero_and_no_weekday:
  "max_parallel_jobs zero_limit_rule = 0
   \<and> fst (checkIfScheduleShouldBeActive zero_limit_rule \<lparr>day = 3, hours = 9, minutes = 5\<rparr>
          (init_system empty_db)) = [SigResume, SigSetLimit 0]
   \<and> maxParallelJobs (snd (checkIfScheduleShouldBeActive zero_limit_rule
          \<lparr>day = 3, hours = 9, minutes = 5\<rparr> (init_system empty_db))) = 1
   \<and> days_of_week no_day_rule = []
   \<and> fst (checkIfScheduleShouldBeActive no_day_rule \<lparr>day = 0, hours = 9, minutes = 5\<rparr>
          (init_system empty_db)) = [SigResume, SigSetLimit 3]"
  by (simp add: checkIfScheduleShouldBeActive_def zero_limit_rule_def no_day_rule_def
      daysArray_def includes_day_def rounds_to_def floor_log2_small number_defs
      currentTime_def padStart_def toString.simps digit_char_def
      setMaxParallelJobs_def resumeQueue_def processEncodingQueue_flags)

text \<open>
  C8, amended: take a rule whose \<open>days_of_week\<close> lists the weekdays \<open>ws\<close>, at
  least one, as numerals from 0 to 6 joined by commas, and a clock with a weekday
  below 7, an hour below 24 and a minute below 60.  The immediate evaluation signals
  \<open>pause\<close> when the weekday is not in \<open>ws\<close>; otherwise it signals \<open>resume\<close>
  and calls \<open>setMaxParallelJobs\<close> with the rule's configured value exactly when the
  zero-padded \<open>HH:MM\<close> of the clock is within \<open>[start, end]\<close> in lexicographic
  order, and signals \<open>pause\<close> otherwise.  Afterwards the queue is paused exactly when
  the rule is not active now; when it is active the limit of the engine is the
  configured value raised to at least 1, and the state is the one that \<open>resume\<close> and
  the setter leave; when it is not, the limit is unchanged and the state is the one
  that \<open>pause\<close> leaves.
\<close>

theorem C8_immediate_evaluation_of_a_rule:
  assumes "ws \<noteq> []" and "list_all (\<lambda>d. d < 7) ws"
      and "days_of_week item = weekdays_text ws"
      and "day now < 7" and "hours now < 24" and "minutes now < 60"
  shows "fst (checkIfScheduleShouldBeActive item now s) = expected_signals ws item now
       \<and> isQueuePaused (snd (checkIfScheduleShouldBeActive item now s))
           = (\<not> (day now \<in> set ws \<and> within_window item now))
       \<and> maxParallelJobs (snd (checkIfScheduleShouldBeActive item now s))
           = (if day now \<in> set ws \<and> within_window item now
              then max 1 (max_parallel_jobs item) else maxParallelJobs s)
       \<and> snd (checkIfScheduleShouldBeActive item now s)
           = (if day now \<in> set ws \<and> within_window item now
              then run [Resume, SetMax (max_parallel_jobs item)] s else run [Pause] s)"
proof -
  have "daysArray item = map js_Number (map weekday_text ws)"
    unfolding daysArray_def assms(3) split_weekdays_text [OF assms(1,2)] ..
  then have d: "includes_day (daysArray item) (day now) = (day now \<in> set ws)"
    using includes_weekday [OF assms(2,4)] by (simp only:)
  have w: "(str_le (start_time item) (currentTime now) \<and> str_le (currentTime now) (end_time item))
             = within_window item now"
    using assms(5,6) by (simp add: within_window_def str_le_lex currentTime_clock_text)
  show ?thesis
    by (simp add: checkIfScheduleShouldBeActive_def d w expected_signals_def run_def
        setMaxParallelJobs_def resumeQueue_def pauseQueue_def processEncodingQueue_flags)
qed

text \<open>
  C8 on two rules: every weekday from 00:00 to 23:59 with limit 3, on a Wednesday at
  09:05, gives \<open>resume\<close> and the limit 3; a weekend rule from 22:00 to 06:00 gives
  \<open>pause\<close> on a Wednesday, and also on a Saturday at 23:30, which is after the
  start but not before the end in lexicographic order.
\<close>

theorem C8_immediate_evaluation_of_a_rule_witness:
  "fst (checkIfScheduleShouldBeActive sample_rule \<lparr>day = 3, hours = 9, minutes = 5\<rparr> (init_system empty_db))
      = [SigResume, SigSetLimit 3]
   \<and> maxParallelJobs (snd (checkIfScheduleShouldBeActive sample_rule
        \<lparr>day = 3, hours = 9, minutes = 5\<rparr> (init_system empty_db))) = 3
   \<and> fst (checkIfScheduleShouldBeActive weekend_rule \<lparr>day = 3, hours = 23, minutes = 30\<rparr> (init_system empty_db))
      = [SigPause]
   \<and> isQueuePaused (snd (checkIfScheduleShouldBeActive weekend_rule
        \<lparr>day = 3, hours = 23, minutes = 30\<rparr> (init_system empty_db)))
   \<and> fst (checkIfScheduleShouldBeActive weekend_rule \<lparr>day = 6, hours = 23, minutes = 30\<rparr> (init_system empty_db))
      = [SigPause]"
proof -
  let ?wed = "\<lparr>day = 3, hours = 9, minutes = 5\<rparr>"
  let ?late = "\<lparr>day = 3, hours = 23, minutes = 30\<rparr>"
  let ?sat = "\<lparr>day = 6, hours = 23, minutes = 30\<rparr>"
  let ?s = "init_system empty_db"
  have every: "[0, 1, 2, 3, 4, 5, 6 :: nat] \<noteq> []" "list_all (\<lambda>d. d < 7) [0, 1, 2, 3, 4, 5, 6 :: nat]"
    and weekend: "[0, 6 :: nat] \<noteq> []" "list_all (\<lambda>d. d < 7) [0, 6 :: nat]"
    and wed: "day ?wed < 7" "hours ?wed < 24" "minutes ?wed < 60"
    and late: "day ?late < 7" "hours ?late < 24" "minutes ?late < 60"
    and sat: "day ?sat < 7" "hours ?sat < 24" "minutes ?sat < 60"
    by simp_all
  have t1: "days_of_week sample_rule = weekdays_text [0, 1, 2, 3, 4, 5, 6]"
    by (simp add: sample_rule_def weekday_text_def)
  have t2: "days_of_week weekend_rule = weekdays_text [0, 6]"
    by (simp add: weekend_rule_def weekday_text_def)
  have w1: "within_window sample_rule ?wed"
    by (simp add: within_window_def str_le_lex [symmetric] clock_text_def two_digits_def sample_rule_def)
  have w3: "\<not> within_window weekend_rule ?sat"
    by (simp add: within_window_def str_le_lex [symmetric] clock_text_def two_digits_def weekend_rule_def)
  have m1: "max_parallel_jobs sample_rule = 3"
    by (simp add: sample_rule_def)
  note ta = C8_immediate_evaluation_of_a_rule [OF every t1 wed, of ?s]
  note tb = C8_immediate_evaluation_of_a_rule [OF weekend t2 late, of ?s]
  note tc = C8_immediate_evaluation_of_a_rule [OF weekend t2 sat, of ?s]
  have a1: "fst (checkIfScheduleShouldBeActive sample_rule ?wed ?s) = [SigResume, SigSetLimit 3]"
    using ta [THEN conjunct1] w1 m1 by (simp add: expected_signals_def)
  have a2: "maxParallelJobs (snd (checkIfScheduleShouldBeActive sample_rule ?wed ?s)) = 3"
    using ta [THEN conjunct2, THEN conjunct2, THEN conjunct1] w1 m1 by simp
  have b1: "fst (checkIfScheduleShouldBeActive weekend_rule ?late ?s) = [SigPause]"
    using tb [THEN conjunct1] by (simp add: expected_signals_def)
  have b2: "isQueuePaused (snd (checkIfScheduleShouldBeActive weekend_rule ?late ?s))"
    using tb [THEN conjunct2, THEN conjunct1] by simp
  have c1: "fst (checkIfScheduleShouldBeActive weekend_rule ?sat ?s) = [SigPause]"
    using tc [THEN conjunct1] w3 by (simp add: expected_signals_def)
  from a1 a2 b1 b2 c1 show ?thesis by (simp only: simp_thms)
qed

section \<open>C9: errors during a scan\<close>

















section \<open>C10: the counter of active jobs\<close>

text \<open>
  C10 at a job whose encoder exits: job 1 is started by a polling pass and its encoder
  is spawned, so \<open>activeJobs = 1\<close> and the map holds job 1.  The encoder then exits,
  with code 1 or with code 0.  In both cases the \<open>close\<close> handler throws at its
  first \<open>updateJobStatus\<close>, before \<open>activeJobs--\<close> and
  \<open>activeJobsMap.delete\<close>: no process is left, but \<open>activeJobs\<close> is still 1, the
  map still holds job 1 and the job is still \<open>processing\<close>.  C10 says the counter
  equals the number of jobs in flight and that the job reaches a terminal status with
  one decrement.
\<close>

theorem C10_slot_kept_after_encoder_exit:
  "activeJobs (sample_run 1) = 1 \<and> activeJobsMap (sample_run 1) = {1} \<and> running (sample_run 1) = []
   \<and> map status (jobs_tbl (store (sample_run 1))) = [Processing]
   \<and> activeJobs (sample_run 0) = 1 \<and> activeJobsMap (sample_run 0) = {1} \<and> running (sample_run 0) = []
   \<and> map status (jobs_tbl (store (sample_run 0))) = [Processing]"
  by (simp add: sample_run_def closeHandler_escapes engine_defs sql_defs updated_row_def set_timestamp_def set_column_def Let_def sample_defs)

section \<open>Further properties\<close>

subsection \<open>Which status updates SQLite accepts\<close>

lemma split_on_nonempty: "split_on c s \<noteq> []"
  by (induction s) (auto split: list.splits)

lemma split_on_sep_length: "c \<in> set s \<Longrightarrow> 2 \<le> length (split_on c s)"
proof (induction s)
  case Nil
  then show ?case by simp
next
  case (Cons x s)
  show ?case
  proof (cases "x = c")
    case True
    then show ?thesis using split_on_nonempty [of c s] by (cases "split_on c s") auto
  next
    case False
    with Cons show ?thesis by (auto split: list.splits)
  qed
qed

lemma last_split_on: "c \<notin> set ys \<Longrightarrow> last (split_on c (xs @ c # ys)) = ys"
proof (induction xs)
  case Nil
  then show ?case by (simp add: split_on_no_sep)
next
  case (Cons x xs)
  have len: "2 \<le> length (split_on c (xs @ c # ys))"
    by (rule split_on_sep_length) simp
  show ?case
  proof (cases "x = c")
    case True
    with Cons len show ?thesis by auto
  next
    case False
    from len obtain w v ws where "split_on c (xs @ c # ys) = w # v # ws"
      by (cases "split_on c (xs @ c # ys)") (auto simp: Suc_le_eq neq_Nil_conv)
    with Cons False show ?thesis by simp
  qed
qed

lemma set_clause_tail:
  "st \<noteq> Completed \<Longrightarrow> st \<noteq> Processing \<Longrightarrow> \<exists>xs. set_clause st data = xs @ CHR '','' # ''  ''"
  by (auto simp: set_clause_def timestamp_sql_def)

text \<open>
  Every call of \<open>updateJobStatus\<close> with a status other than \<open>completed\<close> or
  \<open>processing\<close> throws, whatever the data: the text after \<open>SET\<close> ends with a
  comma.
\<close>

theorem updateJobStatus_rejects_other_statuses:
  assumes "st \<noteq> Completed" "st \<noteq> Processing"
  shows "\<exists>sql. updateJobStatus jobId st data db = Inl (SqliteError sql)"
proof -
  from set_clause_tail [OF assms] obtain xs where xs: "set_clause st data = xs @ CHR '','' # ''  ''"
    by blast
  have "last (split_on CHR '','' (set_clause st data)) = ''  ''"
    unfolding xs by (rule last_split_on) simp
  moreover have "split_on CHR '','' (set_clause st data) \<noteq> []"
    by (rule split_on_nonempty)
  ultimately have "''  '' \<in> set (split_on CHR '','' (set_clause st data))"
    by (metis last_in_set)
  moreover have "blank ''  ''"
    by (simp add: blank_def is_space_def)
  ultimately have "\<not> setlist_ok (set_clause st data)"
    by (auto simp: setlist_ok_def list_all_iff)
  then show ?thesis by (simp add: updateJobStatus_def)
qed

theorem updateJobStatus_rejects_other_statuses_witness:
  "\<exists>sql. updateJobStatus 1 Failed [] (sample_db Processing) = Inl (SqliteError sql)"
proof -
  have "Failed \<noteq> Completed" "Failed \<noteq> Processing"
    by simp_all
  then show ?thesis
    by (rule updateJobStatus_rejects_other_statuses)
qed


subsection \<open>Scenarios of the specification\<close>

lemma scanFile_results:
  assumes "pr p = Some (Some c)"
  shows "results (scanFile pr p sz st) =
           (results st)\<lparr>scanned := scanned (results st) + 1, added := added (results st) + 1,
                        needsEncoding := needsEncoding (results st) + (if needsEncoding_of c then 1 else 0)\<rparr>"
  using assms by (simp add: scanFile_def processMediaFile_def Let_def)

text \<open>
  Scanning a directory with one file in an accepted codec and one file in another codec
  gives \<open>added = 2\<close> and \<open>needsEncoding = 1\<close>.
\<close>

theorem scan_of_two_files:
  assumes "isMediaFile n1" "isMediaFile n2"
      and "pr (d @ [n1]) = Some (Some c1)" "pr (d @ [n2]) = Some (Some c2)"
      and "\<not> needsEncoding_of c1" "needsEncoding_of c2"
  shows "results (scanDirectory pr d (Some [File n1 s1, File n2 s2]) (scan_start db))
           = \<lparr>scanned = 2, added = 2, errors = 0, needsEncoding = 1\<rparr>"
  using assms
  by (simp add: scanDirectory_def scanFile_results scan_start_def)

theorem scan_of_two_files_witness:
  "results (scanDirectory sample_probe [''lib''] (Some [File ''new.mkv'' 30, File ''old.avi'' 20])
      (scan_start empty_db))
     = \<lparr>scanned = 2, added = 2, errors = 0, needsEncoding = 1\<rparr>"
proof -
  have m: "isMediaFile ''new.mkv''" "isMediaFile ''old.avi''"
    by (simp_all add: isMediaFile_def mediaExtensions_def extname_def split_ext_def toLowerCase_def
        lower_char_def)
  have p: "sample_probe ([''lib''] @ [''new.mkv'']) = Some (Some ''hevc'')"
    "sample_probe ([''lib''] @ [''old.avi'']) = Some (Some ''h264'')"
    by (simp_all add: sample_probe_def)
  have c: "\<not> needsEncoding_of ''hevc''" "needsEncoding_of ''h264''"
    by (simp_all add: codec_defs)
  show ?thesis
    by (rule scan_of_two_files [OF m p c])
qed

subsection \<open>How the list of weekdays is read\<close>

text \<open>
  \<open>Number\<close> on texts that are not plain numerals: a fraction, a sign, a radix prefix,
  an exponent and white space are accepted, the empty text is 0, and what is no
  numeric literal is \<open>NaN\<close>.
\<close>

lemma Number_readings:
  "map js_Number [''3'', ''3.0'', ''+3'', ''-0'', ''0x3'', ''1e0'', '' 3 '', '''', ''30e-1'', ''.5'', ''5.'']
     = [Finite 3, Finite 3, Finite 3, Finite 0, Finite 3, Finite 1, Finite 3, Finite 0, Finite 3,
        Finite (1 / 2), Finite 5]
   \<and> map js_Number [''abc'', ''0x'', ''.'', ''1e'', ''-0x10'', ''1,5'', ''infinity'']
     = [NaN, NaN, NaN, NaN, NaN, NaN, NaN]
   \<and> map js_Number [''Infinity'', ''+Infinity'', ''-Infinity''] = [Infinity False, Infinity False, Infinity True]"
  by (simp add: number_defs)

text \<open>
  A rule whose weekdays are written \<open>1.0\<close>, \<open>0x3\<close> (after a space) and \<open>+5\<close> is
  active on the days 3 and 5 and not on day 2; a rule whose weekdays are names is
  active on no day.
\<close>

lemma other_notations_of_a_weekday:
  "fst (checkIfScheduleShouldBeActive (sample_rule\<lparr>days_of_week := ''1.0, 0x3,+5''\<rparr>)
          \<lparr>day = 3, hours = 9, minutes = 5\<rparr> (init_system empty_db)) = [SigResume, SigSetLimit 3]
   \<and> fst (checkIfScheduleShouldBeActive (sample_rule\<lparr>days_of_week := ''1.0, 0x3,+5''\<rparr>)
          \<lparr>day = 5, hours = 9, minutes = 5\<rparr> (init_system empty_db)) = [SigResume, SigSetLimit 3]
   \<and> fst (checkIfScheduleShouldBeActive (sample_rule\<lparr>days_of_week := ''1.0, 0x3,+5''\<rparr>)
          \<lparr>day = 2, hours = 9, minutes = 5\<rparr> (init_system empty_db)) = [SigPause]
   \<and> fst (checkIfScheduleShouldBeActive (sample_rule\<lparr>days_of_week := ''mon,tue''\<rparr>)
          \<lparr>day = 1, hours = 9, minutes = 5\<rparr> (init_system empty_db)) = [SigPause]"
  by (simp add: checkIfScheduleShouldBeActive_def sample_rule_def
      daysArray_def includes_day_def rounds_to_def floor_log2_small number_defs
      currentTime_def padStart_def toString.simps digit_char_def)

subsection \<open>No job reaches a terminal status\<close>

lemma set_column_status: "set_column kv j = Some j' \<Longrightarrow> status j' = status j"
  by (auto simp: set_column_def split: if_splits sqlval.splits)

lemma set_columns_status: "set_columns kvs j = Some j' \<Longrightarrow> status j' = status j"
proof (induction kvs arbitrary: j)
  case Nil
  then show ?case by simp
next
  case (Cons kv kvs)
  then show ?case by (auto split: option.splits dest!: set_column_status)
qed

lemma updated_row_status: "updated_row st data t j = Some j' \<Longrightarrow> status j' = st"
  by (auto simp: updated_row_def set_timestamp_def split: option.splits dest!: set_columns_status)

lemma update_rows_qp:
  "update_rows jobId Processing data t js = Some js' \<Longrightarrow> list_all queued_or_processing js
     \<Longrightarrow> list_all queued_or_processing js'"
proof (induction js arbitrary: js')
  case Nil
  then show ?case by simp
next
  case (Cons j js)
  then show ?case
    by (auto simp: queued_or_processing_def split: option.splits if_splits dest!: updated_row_status)
qed

lemma update_processing_qp:
  "updateJobStatus jobId Processing data db = Inr db' \<Longrightarrow> list_all queued_or_processing (jobs_tbl db)
     \<Longrightarrow> list_all queued_or_processing (jobs_tbl db')"
  by (auto simp: updateJobStatus_def split: if_splits option.splits dest: update_rows_qp)

lemma create_jobs_qp:
  "list_all queued_or_processing (jobs_tbl db) \<Longrightarrow>
     list_all queued_or_processing (jobs_tbl (snd (create_jobs ms db)))"
proof (induction ms arbitrary: db)
  case Nil
  then show ?case by simp
next
  case (Cons m ms)
  show ?case
  proof (cases "createEncodingJob (m_id m) (file_size_bytes m div (1024 * 1024 * 100)) db")
    case (Inl e)
    with Cons.prems show ?thesis by simp
  next
    case (Inr r)
    then obtain row where row: "jobs_tbl (snd r) = jobs_tbl db @ [row]" "status row = Queued"
      by (auto simp: createEncodingJob_def Let_def split: option.splits)
    from row(2) have "queued_or_processing row"
      by (simp add: queued_or_processing_def)
    with Cons.prems row(1) have "list_all queued_or_processing (jobs_tbl (snd r))"
      by simp
    from Cons.IH [OF this] Inr show ?thesis by simp
  qed
qed

lemma begin_qp:
  "list_all queued_or_processing (jobs_tbl (store s)) \<Longrightarrow>
     list_all queued_or_processing (jobs_tbl (store (startEncodingJob_begin jm s)))"
  by (auto simp: startEncodingJob_begin_def Let_def startEncodingJob_catch_id
      split: sum.splits dest: update_processing_qp)

lemma fold_begin_qp:
  "list_all queued_or_processing (jobs_tbl (store s)) \<Longrightarrow>
     list_all queued_or_processing (jobs_tbl (store (fold startEncodingJob_begin jms s)))"
  by (induction jms arbitrary: s) (simp_all add: begin_qp)

lemma processEncodingQueue_qp:
  "list_all queued_or_processing (jobs_tbl (store s)) \<Longrightarrow>
     list_all queued_or_processing (jobs_tbl (store (processEncodingQueue s)))"
  by (simp add: processEncodingQueue_def Let_def fold_begin_qp)

lemma resume_qp:
  "list_all queued_or_processing (jobs_tbl (store s)) \<Longrightarrow>
     list_all queued_or_processing (jobs_tbl (store (startEncodingJob_resume env jm s)))"
  by (auto simp: startEncodingJob_resume_def Let_def startEncodingJob_catch_id
      startFFmpegEncoding_def split: sum.splits dest: update_processing_qp)

lemma step_qp:
  assumes "list_all queued_or_processing (jobs_tbl (store s))"
  shows "list_all queued_or_processing (jobs_tbl (store (step e s)))"
proof (cases e)
  case (ScanFile mi)
  with assms show ?thesis by (auto simp: addMedia_def Let_def list_all_iff)
next
  case Admit
  have "snd (queueEncodingJobs (store s)) = snd (create_jobs (getMediaNeedingEncoding 100 0 (store s)) (store s))"
    by (cases "create_jobs (getMediaNeedingEncoding 100 0 (store s)) (store s)")
       (simp add: queueEncodingJobs_def Let_def split: option.splits)
  with Admit assms show ?thesis by (simp add: create_jobs_qp)
next
  case Poll
  with assms show ?thesis by (simp add: processEncodingQueue_qp)
next
  case (StartResume k env)
  with assms show ?thesis by (simp add: resume_qp)
next
  case (ProcClose k env)
  with assms show ?thesis by (simp add: closeHandler_escapes)
next
  case (ProcError k msg)
  with assms show ?thesis by (simp add: errorHandler_escapes)
next
  case (Restart jobId)
  with assms show ?thesis by (simp add: restartJob_never_succeeds split: sum.splits)
next
  case Pause
  with assms show ?thesis by (simp add: pauseQueue_def)
next
  case Resume
  with assms show ?thesis by (simp add: resumeQueue_def processEncodingQueue_qp)
next
  case (SetMax n)
  with assms show ?thesis by (simp add: setMaxParallelJobs_def)
next
  case Tick
  with assms show ?thesis by simp
qed

text \<open>
  When every job is \<open>queued\<close> or \<open>processing\<close>, as in a new database, every job
  is \<open>queued\<close> or \<open>processing\<close> after any sequence of events: no job becomes
  \<open>completed\<close> or \<open>failed\<close>.
\<close>

theorem jobs_stay_queued_or_processing:
  "list_all queued_or_processing (jobs_tbl (store s)) \<Longrightarrow>
     list_all queued_or_processing (jobs_tbl (store (run evs s)))"
  unfolding run_def by (induction evs arbitrary: s) (simp_all add: step_qp)

theorem jobs_stay_queued_or_processing_witness:
  "list_all queued_or_processing
     (jobs_tbl (store (run [Poll, StartResume 0 start_ok, ProcClose 0 (close_with 0), Restart 1]
        (init_system (sample_db Queued)))))"
proof -
  have "list_all queued_or_processing (jobs_tbl (store (init_system (sample_db Queued))))"
    by (simp add: init_system_def queued_or_processing_def sample_defs)
  then show ?thesis
    by (rule jobs_stay_queued_or_processing)
qed

end
